theory Spec2Isabelle
  imports Complex_Main "HOL-Library.Multiset"
begin

section \<open>Python values and the helpers of the standard library\<close>

text \<open>
  The module \<^verbatim>\<open>label_studio/data_manager/managers.py\<close> builds one query over the
  task table from a structure of filters, an ordering and a selection. The values it
  handles are Python values: the raw value of a filter item is a string, a number, a
  boolean or a \<^verbatim>\<open>{min, max}\<close> object, and value coercion stores floats and datetimes
  back into the item. A float is modelled by the rational number it denotes (rounding,
  infinities and NaN are outside the model), a datetime by its microseconds since the
  epoch.
\<close>

datatype pyval =
    PNone
  | PBool bool
  | PInt int
  | PFloat rat
  | PStr string
  | PDatetime int
  | PRange pyval pyval
  | PList "pyval list"

text \<open>The exceptions of Python that the module can raise.\<close>

datatype error = ValueError | TypeError | AttributeError | IndexError | KeyError

text \<open>Truthiness, as \<^verbatim>\<open>not x\<close> and \<^verbatim>\<open>if x\<close> read it.\<close>

fun py_truthy :: "pyval \<Rightarrow> bool" where
  "py_truthy PNone = False"
| "py_truthy (PBool b) = b"
| "py_truthy (PInt i) = (i \<noteq> 0)"
| "py_truthy (PFloat r) = (r \<noteq> 0)"
| "py_truthy (PStr s) = (s \<noteq> [])"
| "py_truthy (PDatetime d) = True"
| "py_truthy (PRange a b) = True"
| "py_truthy (PList xs) = (xs \<noteq> [])"

text \<open>
  \<^verbatim>\<open>hasattr(value, 'max')\<close>: the range object of a filter has the attributes
  \<^verbatim>\<open>min\<close> and \<^verbatim>\<open>max\<close>, and so has a datetime (the class attributes
  \<^verbatim>\<open>datetime.min\<close> and \<^verbatim>\<open>datetime.max\<close>); strings, numbers, booleans, None and lists
  have not.
\<close>

fun has_max :: "pyval \<Rightarrow> bool" where
  "has_max (PRange a b) = True"
| "has_max (PDatetime d) = True"
| "has_max v = False"

text \<open>\<^verbatim>\<open>s.startswith(p)\<close>, written with the prefix first.\<close>

fun startswith :: "string \<Rightarrow> string \<Rightarrow> bool" where
  "startswith [] s = True"
| "startswith (p # ps) [] = False"
| "startswith (p # ps) (c # cs) = (p = c \<and> startswith ps cs)"

text \<open>\<^verbatim>\<open>old in s\<close> for strings.\<close>

fun contains :: "string \<Rightarrow> string \<Rightarrow> bool" where
  "contains old [] = (old = [])"
| "contains old (c # cs) = (startswith old (c # cs) \<or> contains old cs)"

text \<open>
  \<^verbatim>\<open>s.replace(old, new)\<close>: every occurrence, found from the left, occurrences not
  overlapping. With an empty \<^verbatim>\<open>old\<close> Python puts \<^verbatim>\<open>new\<close> before every
  character and at the end.
\<close>

fun str_replace :: "string \<Rightarrow> string \<Rightarrow> string \<Rightarrow> string" where
  "str_replace [] new s = new @ concat (map (\<lambda>c. c # new) s)"
| "str_replace (p # ps) new [] = []"
| "str_replace (p # ps) new (c # cs) =
     (if startswith (p # ps) (c # cs)
      then new @ str_replace (p # ps) new (drop (length ps) cs)
      else c # str_replace (p # ps) new cs)"

text \<open>\<^verbatim>\<open>s.replace(old, new, 1)\<close>: the first occurrence only.\<close>

fun str_replace_first :: "string \<Rightarrow> string \<Rightarrow> string \<Rightarrow> string" where
  "str_replace_first [] new s = new @ s"
| "str_replace_first (p # ps) new [] = []"
| "str_replace_first (p # ps) new (c # cs) =
     (if startswith (p # ps) (c # cs)
      then new @ drop (length ps) cs
      else c # str_replace_first (p # ps) new cs)"

section \<open>What the module takes from its surroundings\<close>

text \<open>
  The module calls the standard library (\<^verbatim>\<open>float\<close>, \<^verbatim>\<open>datetime.strptime\<close>,
  \<^verbatim>\<open>str\<close>, \<^verbatim>\<open>re.compile\<close>, \<^verbatim>\<open>re.sub\<close>), reads the settings and the column
  names of the task model, calls the helper \<^verbatim>\<open>cast_bool_from_str\<close> of
  \<^verbatim>\<open>label_studio.core.utils.params\<close>, and leaves comparisons, text search and casts
  to the storage engine. None of these is defined in the module, so each is a parameter:
  the theorems hold for every choice of them.
\<close>

record env =
  cast_bool_from_str :: "pyval \<Rightarrow> error + pyval"
  float_of_str :: "string \<Rightarrow> rat option"
  strptime_str :: "string \<Rightarrow> string \<Rightarrow> int option"
  datetime_min :: int
  datetime_max :: int
  py_str :: "pyval \<Rightarrow> string"
  re_compiles :: "string \<Rightarrow> bool"
  re_sub :: "string \<Rightarrow> string \<Rightarrow> string \<Rightarrow> string"
  DATA_UNDEFINED_NAME :: string
  DJANGO_DB_is_sqlite :: bool
  task_fields :: "string list"
  db_less :: "pyval \<Rightarrow> pyval \<Rightarrow> bool"
  db_icontains :: "pyval \<Rightarrow> pyval \<Rightarrow> bool"
  db_regex :: "pyval \<Rightarrow> pyval \<Rightarrow> bool"
  db_cast_float :: "pyval \<Rightarrow> pyval"
  db_json_text :: "pyval \<Rightarrow> string"

text \<open>
  \<^verbatim>\<open>float(x)\<close>: a string is parsed (ValueError when it does not parse), a number or
  a boolean is converted, anything else is a TypeError.
\<close>

fun py_float :: "env \<Rightarrow> pyval \<Rightarrow> error + pyval" where
  "py_float E (PStr s) = (case float_of_str E s of None \<Rightarrow> Inl ValueError | Some r \<Rightarrow> Inr (PFloat r))"
| "py_float E (PInt i) = Inr (PFloat (of_int i))"
| "py_float E (PFloat r) = Inr (PFloat r)"
| "py_float E (PBool b) = Inr (PFloat (if b then 1 else 0))"
| "py_float E v = Inl TypeError"

text \<open>
  \<^verbatim>\<open>datetime.strptime(x, fmt)\<close>: TypeError unless \<^verbatim>\<open>x\<close> is a string, ValueError
  when the string does not match the format.
\<close>

fun py_strptime :: "env \<Rightarrow> string \<Rightarrow> pyval \<Rightarrow> error + pyval" where
  "py_strptime E fmt (PStr s) =
     (case strptime_str E s fmt of None \<Rightarrow> Inl ValueError | Some d \<Rightarrow> Inr (PDatetime d))"
| "py_strptime E fmt v = Inl TypeError"

text \<open>The attributes \<^verbatim>\<open>min\<close> and \<^verbatim>\<open>max\<close> of a value, read and written.\<close>

fun getattr_min :: "env \<Rightarrow> pyval \<Rightarrow> error + pyval" where
  "getattr_min E (PRange a b) = Inr a"
| "getattr_min E (PDatetime d) = Inr (PDatetime (datetime_min E))"
| "getattr_min E v = Inl AttributeError"

fun getattr_max :: "env \<Rightarrow> pyval \<Rightarrow> error + pyval" where
  "getattr_max E (PRange a b) = Inr b"
| "getattr_max E (PDatetime d) = Inr (PDatetime (datetime_max E))"
| "getattr_max E v = Inl AttributeError"

fun setattr_min :: "pyval \<Rightarrow> pyval \<Rightarrow> error + pyval" where
  "setattr_min (PRange a b) x = Inr (PRange x b)"
| "setattr_min v x = Inl AttributeError"

fun setattr_max :: "pyval \<Rightarrow> pyval \<Rightarrow> error + pyval" where
  "setattr_max (PRange a b) x = Inr (PRange a x)"
| "setattr_max v x = Inl AttributeError"

section \<open>The structures of a request\<close>

text \<open>
  \<^verbatim>\<open>data_manager.prepare_params\<close> declares the structures; the module reads and
  writes their attributes. A filter item has a field path, an operator, a type and a value;
  the filters have a conjunction and the items in order; the selection has a flag and two
  lists of ids. An absent \<^verbatim>\<open>filters\<close>, \<^verbatim>\<open>selectedItems\<close> or \<^verbatim>\<open>project\<close> is
  None.
\<close>

datatype ConjunctionEnum = OR | AND

record filter_item =
  f_filter :: string
  f_operator :: string
  f_type :: string
  f_value :: pyval

record filters =
  conjunction :: ConjunctionEnum
  items :: "filter_item list"

record selected_items =
  sel_all :: bool
  included :: "int list"
  excluded :: "int list"

record prepare_params =
  project :: "int option"
  ordering :: "string list"
  selectedItems :: "selected_items option"
  filters :: "filters option"

section \<open>Value coercion\<close>

definition DATETIME_FORMAT :: string where
  "DATETIME_FORMAT = ''%Y-%m-%dT%H:%M:%S.%fZ''"

text \<open>
  \<^verbatim>\<open>cast_value\<close> writes the coerced value into the item and returns nothing. The
  model returns the item as the call leaves it, and the exception when one is raised: the
  writes made before the exception stay.

  The two assignments of the range branch, \<^verbatim>\<open>value.min = conv(value.min)\<close> and then
  \<^verbatim>\<open>value.max = conv(value.max)\<close>:
\<close>

definition cast_range :: "env \<Rightarrow> (pyval \<Rightarrow> error + pyval) \<Rightarrow> filter_item \<Rightarrow> filter_item \<times> error option" where
  "cast_range E conv f =
     (case getattr_min E (f_value f) of Inl e \<Rightarrow> (f, Some e) | Inr lo \<Rightarrow>
     (case conv lo of Inl e \<Rightarrow> (f, Some e) | Inr lo' \<Rightarrow>
     (case setattr_min (f_value f) lo' of Inl e \<Rightarrow> (f, Some e) | Inr v1 \<Rightarrow>
     (case getattr_max E v1 of Inl e \<Rightarrow> (f\<lparr>f_value := v1\<rparr>, Some e) | Inr hi \<Rightarrow>
     (case conv hi of Inl e \<Rightarrow> (f\<lparr>f_value := v1\<rparr>, Some e) | Inr hi' \<Rightarrow>
     (case setattr_max v1 hi' of Inl e \<Rightarrow> (f\<lparr>f_value := v1\<rparr>, Some e) | Inr v2 \<Rightarrow>
        (f\<lparr>f_value := v2\<rparr>, None)))))))"

text \<open>The assignment \<^verbatim>\<open>_filter.value = conv(_filter.value)\<close> of the scalar branch.\<close>

definition cast_scalar :: "(pyval \<Rightarrow> error + pyval) \<Rightarrow> filter_item \<Rightarrow> filter_item \<times> error option" where
  "cast_scalar conv f =
     (case conv (f_value f) of Inl e \<Rightarrow> (f, Some e) | Inr v \<Rightarrow> (f\<lparr>f_value := v\<rparr>, None))"

definition cast_value :: "env \<Rightarrow> filter_item \<Rightarrow> filter_item \<times> error option" where
  "cast_value E f =
     (if has_max (f_value f) then
        (if f_type f = ''Number'' then cast_range E (py_float E) f
         else if f_type f = ''Datetime'' then cast_range E (py_strptime E DATETIME_FORMAT) f
         else (f, None))
      else
        (if f_type f = ''Number'' then cast_scalar (py_float E) f
         else if f_type f = ''Datetime'' then cast_scalar (py_strptime E DATETIME_FORMAT) f
         else if f_type f = ''Boolean'' then cast_scalar (cast_bool_from_str E) f
         else (f, None)))"

section \<open>The query sets of the ORM\<close>

text \<open>
  The module composes a Django query set: it adds computed columns
  (\<^verbatim>\<open>annotate\<close>), restricts the rows by a predicate (\<^verbatim>\<open>filter\<close>, \<^verbatim>\<open>exclude\<close>,
  \<^verbatim>\<open>none\<close>), sorts them (\<^verbatim>\<open>order_by\<close>) and asks for a row (\<^verbatim>\<open>exists\<close>,
  \<^verbatim>\<open>first\<close>). Django is not part of the module. The model below gives a query set
  the rows it selects, in their order, so that the records a query returns can be spoken
  of; it evaluates each operation at once, where Django defers it to the storage
  engine.

  A task row has its id, its project with the project's flag
  \<^verbatim>\<open>only_undefined_field\<close>, the JSON object \<^verbatim>\<open>data\<close> by key, and the values of
  its other columns and of the aggregates the storage engine computes, by name. A key or
  column that is missing is unset; \<open>PNone\<close> is a null.
\<close>

record task =
  t_id :: int
  t_project :: int
  t_only_undefined_field :: bool
  t_data :: "(string \<times> pyval) list"
  t_columns :: "(string \<times> pyval) list"

text \<open>
  A predicate \<^verbatim>\<open>Q\<close>: a keyword lookup \<^verbatim>\<open>Q(**{key: value})\<close>, a negation
  \<^verbatim>\<open>~q\<close>, or a node that joins its children with one connector. \<^verbatim>\<open>Q()\<close> is the
  node with no children.
\<close>

datatype q = Q_kwarg string pyval | Q_not q | Q_node ConjunctionEnum "q list"

definition Q_empty :: q where
  "Q_empty = Q_node AND []"

definition Q_or :: "q \<Rightarrow> q \<Rightarrow> q" where
  "Q_or a b = Q_node OR [a, b]"

definition Q_and :: "q \<Rightarrow> q \<Rightarrow> q" where
  "Q_and a b = Q_node AND [a, b]"

text \<open>\<^verbatim>\<open>Q(**{k1: v1, k2: v2})\<close>: two lookups joined by AND.\<close>

definition Q_kwargs2 :: "string \<Rightarrow> pyval \<Rightarrow> string \<Rightarrow> pyval \<Rightarrow> q" where
  "Q_kwargs2 k1 v1 k2 v2 = Q_node AND [Q_kwarg k1 v1, Q_kwarg k2 v2]"

text \<open>
  \<^verbatim>\<open>node.add(data, conn_type)\<close>: a node of the same connector takes the new child; a
  node of the other connector becomes the first child of a new node.
\<close>

fun q_add :: "q \<Rightarrow> q \<Rightarrow> ConjunctionEnum \<Rightarrow> q" where
  "q_add (Q_node c cs) d conn = (if c = conn then Q_node c (cs @ [d]) else Q_node conn [Q_node c cs, d])"
| "q_add n d conn = Q_node conn [n, d]"

text \<open>The expressions the module annotates with.\<close>

datatype expr =
    KeyTextTransform string string
  | Cast_FloatField expr
  | F string
  | Count string "q option"
  | Subquery_newest_created_at
  | GroupConcat string
  | ArrayAgg string
  | Coalesce expr pyval
  | Avg string

record queryset =
  qs_rows :: "task list"
  qs_annotations :: "(string \<times> expr) list"
  qs_ordered :: bool

definition qs_annotate :: "string \<Rightarrow> expr \<Rightarrow> queryset \<Rightarrow> queryset" where
  "qs_annotate name e qs = qs\<lparr>qs_annotations := (name, e) # qs_annotations qs\<rparr>"

definition qs_none :: "queryset \<Rightarrow> queryset" where
  "qs_none qs = qs\<lparr>qs_rows := []\<rparr>"

definition qs_exists :: "queryset \<Rightarrow> bool" where
  "qs_exists qs = (qs_rows qs \<noteq> [])"

text \<open>
  \<^verbatim>\<open>first()\<close> takes the first row of an ordered query set, and the row of the least
  primary key of one that has no ordering.
\<close>

fun least_pk :: "task \<Rightarrow> task list \<Rightarrow> task" where
  "least_pk t [] = t"
| "least_pk t (u # us) = least_pk (if t_id u < t_id t then u else t) us"

definition qs_first :: "queryset \<Rightarrow> task option" where
  "qs_first qs =
     (case qs_rows qs of [] \<Rightarrow> None
      | t # ts \<Rightarrow> Some (if qs_ordered qs then t else least_pk t ts))"

subsection \<open>The value of a field in a row\<close>

text \<open>
  A key of \<^verbatim>\<open>data\<close> read as text (\<^verbatim>\<open>KeyTextTransform\<close>): an unset key and a null
  are null, a string is itself, another value is its JSON text.
\<close>

fun key_text :: "env \<Rightarrow> pyval option \<Rightarrow> pyval option" where
  "key_text E None = None"
| "key_text E (Some PNone) = Some PNone"
| "key_text E (Some (PStr s)) = Some (PStr s)"
| "key_text E (Some v) = Some (PStr (db_json_text E v))"

fun is_null :: "pyval option \<Rightarrow> bool" where
  "is_null None = True"
| "is_null (Some PNone) = True"
| "is_null (Some v) = False"

text \<open>
  The two expressions the module builds from a key are evaluated on the row; an aggregate
  or subquery of the registry is computed by the storage engine, and the row carries its
  value under the name of the annotation.
\<close>

fun eval_expr :: "env \<Rightarrow> task \<Rightarrow> string \<Rightarrow> expr \<Rightarrow> pyval option" where
  "eval_expr E t name (KeyTextTransform k col) = key_text E (map_of (t_data t) k)"
| "eval_expr E t name (Cast_FloatField e) =
     (let x = eval_expr E t name e in if is_null x then x else map_option (db_cast_float E) x)"
| "eval_expr E t name e = map_of (t_columns t) name"

definition field_value :: "env \<Rightarrow> queryset \<Rightarrow> task \<Rightarrow> string \<Rightarrow> pyval option" where
  "field_value E qs t name =
     (if name = ''id'' then Some (PInt (t_id t))
      else if name = ''project'' then Some (PInt (t_project t))
      else case map_of (qs_annotations qs) name of
        Some e \<Rightarrow> eval_expr E t name e
      | None \<Rightarrow>
          if startswith ''data__'' name then map_of (t_data t) (drop 6 name)
          else map_of (t_columns t) name)"

subsection \<open>Lookups and predicates\<close>

text \<open>
  The last component of a keyword names the lookup when it is one of the lookups the
  module writes; otherwise the lookup is an exact match.
\<close>

datatype lookup = Exact | IsNull | Lt | Gt | Lte | Gte | IContains | Regex | In

definition endswith :: "string \<Rightarrow> string \<Rightarrow> bool" where
  "endswith suf s = startswith (rev suf) (rev s)"

definition strip_suffix :: "string \<Rightarrow> string \<Rightarrow> string" where
  "strip_suffix suf s = take (length s - length suf) s"

definition split_lookup :: "string \<Rightarrow> string \<times> lookup" where
  "split_lookup key =
     (if endswith ''__isnull'' key then (strip_suffix ''__isnull'' key, IsNull)
      else if endswith ''__lt'' key then (strip_suffix ''__lt'' key, Lt)
      else if endswith ''__gt'' key then (strip_suffix ''__gt'' key, Gt)
      else if endswith ''__lte'' key then (strip_suffix ''__lte'' key, Lte)
      else if endswith ''__gte'' key then (strip_suffix ''__gte'' key, Gte)
      else if endswith ''__icontains'' key then (strip_suffix ''__icontains'' key, IContains)
      else if endswith ''__regex'' key then (strip_suffix ''__regex'' key, Regex)
      else if endswith ''__in'' key then (strip_suffix ''__in'' key, In)
      else (key, Exact))"

text \<open>Equality of values: numbers and booleans by their numeric value, the rest as they are.\<close>

fun num_value :: "pyval \<Rightarrow> rat option" where
  "num_value (PBool b) = Some (if b then 1 else 0)"
| "num_value (PInt i) = Some (of_int i)"
| "num_value (PFloat r) = Some r"
| "num_value v = None"

definition py_eq :: "pyval \<Rightarrow> pyval \<Rightarrow> bool" where
  "py_eq a b =
     (case num_value a of
        Some x \<Rightarrow> (case num_value b of Some y \<Rightarrow> x = y | None \<Rightarrow> False)
      | None \<Rightarrow> (case num_value b of Some y \<Rightarrow> False | None \<Rightarrow> a = b))"

text \<open>A comparison holds of a value that is set and not null.\<close>

fun with_value :: "pyval option \<Rightarrow> (pyval \<Rightarrow> bool) \<Rightarrow> bool" where
  "with_value None P = False"
| "with_value (Some y) P = (y \<noteq> PNone \<and> P y)"

text \<open>
  One lookup on the value of a field. An exact match with None is the ORM's test for
  null; \<^verbatim>\<open>isnull\<close> holds of a null and of an unset key.
\<close>

fun lookup_holds :: "env \<Rightarrow> lookup \<Rightarrow> pyval option \<Rightarrow> pyval \<Rightarrow> bool" where
  "lookup_holds E Exact x v = (if v = PNone then is_null x else with_value x (\<lambda>y. py_eq y v))"
| "lookup_holds E IsNull x v = (is_null x = py_truthy v)"
| "lookup_holds E Lt x v = with_value x (\<lambda>y. db_less E y v)"
| "lookup_holds E Gt x v = with_value x (\<lambda>y. db_less E v y)"
| "lookup_holds E Lte x v = with_value x (\<lambda>y. \<not> db_less E v y)"
| "lookup_holds E Gte x v = with_value x (\<lambda>y. \<not> db_less E y v)"
| "lookup_holds E IContains x v = with_value x (\<lambda>y. db_icontains E y v)"
| "lookup_holds E Regex x v = with_value x (\<lambda>y. db_regex E y v)"
| "lookup_holds E In x v =
     (case v of PList vs \<Rightarrow> with_value x (\<lambda>y. list_ex (py_eq y) vs) | _ \<Rightarrow> False)"

text \<open>
  A predicate on a row. The ORM writes a negation so that it selects the complement
  (it adds the test for null that SQL needs), and it leaves a node without conditions out
  of the clause it builds.
\<close>

fun q_is_empty :: "q \<Rightarrow> bool" where
  "q_is_empty (Q_kwarg k v) = False"
| "q_is_empty (Q_not a) = q_is_empty a"
| "q_is_empty (Q_node c cs) = list_all q_is_empty cs"

fun q_holds :: "env \<Rightarrow> queryset \<Rightarrow> task \<Rightarrow> q \<Rightarrow> bool" where
  "q_holds E qs t (Q_kwarg k v) =
     lookup_holds E (snd (split_lookup k)) (field_value E qs t (fst (split_lookup k))) v"
| "q_holds E qs t (Q_not a) = (\<not> q_holds E qs t a)"
| "q_holds E qs t (Q_node AND cs) = list_all (\<lambda>c. q_is_empty c \<or> q_holds E qs t c) cs"
| "q_holds E qs t (Q_node OR cs) =
     (list_all q_is_empty cs \<or> list_ex (\<lambda>c. \<not> q_is_empty c \<and> q_holds E qs t c) cs)"

definition qs_filter :: "env \<Rightarrow> q \<Rightarrow> queryset \<Rightarrow> queryset" where
  "qs_filter E p qs = qs\<lparr>qs_rows := filter (\<lambda>t. q_holds E qs t p) (qs_rows qs)\<rparr>"

definition qs_exclude :: "env \<Rightarrow> q \<Rightarrow> queryset \<Rightarrow> queryset" where
  "qs_exclude E p qs = qs\<lparr>qs_rows := filter (\<lambda>t. \<not> q_holds E qs t p) (qs_rows qs)\<rparr>"

subsection \<open>Ordering\<close>

text \<open>
  \<^verbatim>\<open>F(name).asc(nulls_last=True)\<close>, \<^verbatim>\<open>F(name).desc(nulls_last=True)\<close>, and the
  plain name that \<^verbatim>\<open>order_by("id")\<close> takes (ascending).
\<close>

datatype order_expr = F_asc_nulls_last string | F_desc_nulls_last string | Name string

fun order_field :: "order_expr \<Rightarrow> string" where
  "order_field (F_asc_nulls_last n) = n"
| "order_field (F_desc_nulls_last n) = n"
| "order_field (Name n) = n"

fun order_ascending :: "order_expr \<Rightarrow> bool" where
  "order_ascending (F_asc_nulls_last n) = True"
| "order_ascending (F_desc_nulls_last n) = False"
| "order_ascending (Name n) = True"

text \<open>
  \<open>key_le E asc x y\<close>: a row of key \<open>x\<close> may stand before a row of key \<open>y\<close>. A null
  stands after every value; two values are compared by the storage engine.
\<close>

definition key_le :: "env \<Rightarrow> bool \<Rightarrow> pyval option \<Rightarrow> pyval option \<Rightarrow> bool" where
  "key_le E asc x y =
     (if is_null y then True
      else if is_null x then False
      else (case x of None \<Rightarrow> False | Some a \<Rightarrow>
             (case y of None \<Rightarrow> True | Some b \<Rightarrow>
                (if asc then \<not> db_less E b a else \<not> db_less E a b))))"

fun insort_by :: "('a \<Rightarrow> 'a \<Rightarrow> bool) \<Rightarrow> 'a \<Rightarrow> 'a list \<Rightarrow> 'a list" where
  "insort_by le x [] = [x]"
| "insort_by le x (y # ys) = (if le x y then x # y # ys else y # insort_by le x ys)"

definition sort_by :: "('a \<Rightarrow> 'a \<Rightarrow> bool) \<Rightarrow> 'a list \<Rightarrow> 'a list" where
  "sort_by le xs = foldr (insort_by le) xs []"

definition qs_order_by :: "env \<Rightarrow> order_expr \<Rightarrow> queryset \<Rightarrow> queryset" where
  "qs_order_by E oe qs =
     qs\<lparr>qs_rows :=
          sort_by (\<lambda>a b. key_le E (order_ascending oe)
                      (field_value E qs a (order_field oe)) (field_value E qs b (order_field oe)))
            (qs_rows qs),
        qs_ordered := True\<rparr>"

section \<open>Field names\<close>

text \<open>The table \<^verbatim>\<open>operators\<close>, and \<^verbatim>\<open>operators.get(op, '')\<close>.\<close>

definition operators :: "(string \<times> string) list" where
  "operators =
     [(''equal'', ''''),
      (''not_equal'', ''''),
      (''less'', ''__lt''),
      (''greater'', ''__gt''),
      (''less_or_equal'', ''__lte''),
      (''greater_or_equal'', ''__gte''),
      (''in'', ''''),
      (''not_in'', ''''),
      (''empty'', ''__isnull''),
      (''contains'', ''__icontains''),
      (''not_contains'', ''__icontains''),
      (''regex'', ''__regex'')]"

definition operators_get :: "string \<Rightarrow> string" where
  "operators_get op = (case map_of operators op of Some suffix \<Rightarrow> suffix | None \<Rightarrow> '''')"

definition preprocess_field_name :: "env \<Rightarrow> string \<Rightarrow> bool \<Rightarrow> string" where
  "preprocess_field_name E raw_field_name only_undefined_field =
     (let field_name = str_replace ''filter:tasks:'' '''' raw_field_name in
      if startswith ''data.'' field_name then
        (if only_undefined_field then ''data__'' @ DATA_UNDEFINED_NAME E
         else str_replace ''data.'' ''data__'' field_name)
      else field_name)"

section \<open>The predicate builder\<close>

text \<open>
  \<^verbatim>\<open>queryset.exists() and queryset.first().project.only_undefined_field\<close>, read once
  before the loop.
\<close>

definition sample_only_undefined_field :: "queryset \<Rightarrow> bool" where
  "sample_only_undefined_field qs =
     (qs_exists qs \<and> (case qs_first qs of None \<Rightarrow> False | Some t \<Rightarrow> t_only_undefined_field t))"

text \<open>
  One pass of the loop over \<^verbatim>\<open>filters.items\<close> ends in one of three ways: the loop
  goes on with the query set and the filter expression, the function returns a query set
  at once (with what it logged), or an exception leaves the function.
\<close>

datatype log_entry = Info_incorrect_regex pyval | Debug_apply_filter q

datatype step = Continue queryset q | Return queryset "log_entry list" | Raise error

text \<open>The field name of an item, with the renaming of \<^verbatim>\<open>file_upload\<close>.\<close>

definition resolve_field_name :: "env \<Rightarrow> bool \<Rightarrow> filter_item \<Rightarrow> string" where
  "resolve_field_name E only_undefined_field f =
     (let field_name = preprocess_field_name E (f_filter f) only_undefined_field in
      if field_name = ''file_upload'' then ''file_upload_field'' else field_name)"

text \<open>
  A number filter on a key of \<^verbatim>\<open>data\<close> is annotated with the cast of the key to a
  float, and the name of the annotation is the clean field name.
\<close>

definition needs_number_cast :: "filter_item \<Rightarrow> string \<Rightarrow> bool" where
  "needs_number_cast f field_name = (f_type f = ''Number'' \<and> startswith ''data__'' field_name)"

definition number_cast_name :: "string \<Rightarrow> string" where
  "number_cast_name field_name =
     ''filter_'' @ str_replace ''$undefined$'' ''undefined'' (str_replace ''data__'' '''' field_name)"

definition annotate_number_cast :: "filter_item \<Rightarrow> string \<Rightarrow> queryset \<Rightarrow> queryset" where
  "annotate_number_cast f field_name qs =
     (if needs_number_cast f field_name
      then qs_annotate (number_cast_name field_name)
             (Cast_FloatField (KeyTextTransform (str_replace ''data__'' '''' field_name) ''data'')) qs
      else qs)"

definition clean_field_name :: "filter_item \<Rightarrow> string \<Rightarrow> string" where
  "clean_field_name f field_name =
     (if needs_number_cast f field_name then number_cast_name field_name else field_name)"

text \<open>
  The special case of the three counters: an \<^verbatim>\<open>empty\<close> filter on one of them is
  rewritten in place, its operator to \<^verbatim>\<open>equal\<close> or \<^verbatim>\<open>not_equal\<close> and its value
  to 0.
\<close>

definition counters :: "string list" where
  "counters = [''total_predictions'', ''total_annotations'', ''cancelled_annotations'']"

definition counter_special_case :: "env \<Rightarrow> string \<Rightarrow> filter_item \<Rightarrow> filter_item \<times> error option" where
  "counter_special_case E clean f =
     (if clean \<in> set counters \<and> f_operator f = ''empty'' then
        (case cast_bool_from_str E (f_value f) of
           Inl e \<Rightarrow> (f, Some e)
         | Inr b \<Rightarrow>
             (f\<lparr>f_operator := (if py_truthy b then ''equal'' else ''not_equal''),
                f_value := PInt 0\<rparr>, None))
      else (f, None))"

text \<open>The predicate of the special case of strings, for \<^verbatim>\<open>empty\<close>.\<close>

definition string_empty_q :: "string \<Rightarrow> pyval \<Rightarrow> q" where
  "string_empty_q field_name b =
     (if py_truthy b then
        Q_or (Q_or (Q_kwarg field_name (PStr '''')) (Q_kwarg field_name PNone))
             (Q_kwarg (field_name @ ''__isnull'') (PBool True))
      else
        Q_and (Q_and (Q_not (Q_kwarg field_name (PStr ''''))) (Q_not (Q_kwarg field_name PNone)))
              (Q_not (Q_kwarg (field_name @ ''__isnull'') (PBool True))))"

text \<open>
  The branches after the operator's suffix is appended: \<^verbatim>\<open>in\<close>, \<^verbatim>\<open>not_in\<close>,
  \<^verbatim>\<open>empty\<close>, the operators that start with \<^verbatim>\<open>not_\<close>, and all others.
\<close>

definition range_q :: "env \<Rightarrow> string \<Rightarrow> filter_item \<Rightarrow> error + q" where
  "range_q E field_name f =
     (case getattr_min E (f_value f) of Inl e \<Rightarrow> Inl e | Inr lo \<Rightarrow>
     (case getattr_max E (f_value f) of Inl e \<Rightarrow> Inl e | Inr hi \<Rightarrow>
        Inr (Q_kwargs2 (field_name @ ''__gte'') lo (field_name @ ''__lte'') hi)))"

definition generic_predicate ::
  "env \<Rightarrow> ConjunctionEnum \<Rightarrow> queryset \<Rightarrow> q \<Rightarrow> string \<Rightarrow> filter_item \<Rightarrow> filter_item \<times> step" where
  "generic_predicate E conn qs fe clean f =
     (let field_name = clean @ operators_get (f_operator f) in
      if f_operator f = ''in'' then
        (case cast_value E f of
           (f', Some e) \<Rightarrow> (f', Raise e)
         | (f', None) \<Rightarrow>
             (case range_q E field_name f' of
                Inl e \<Rightarrow> (f', Raise e)
              | Inr p \<Rightarrow> (f', Continue qs (q_add fe p conn))))
      else if f_operator f = ''not_in'' then
        (case cast_value E f of
           (f', Some e) \<Rightarrow> (f', Raise e)
         | (f', None) \<Rightarrow>
             (case range_q E field_name f' of
                Inl e \<Rightarrow> (f', Raise e)
              | Inr p \<Rightarrow> (f', Continue qs (q_add fe (Q_not p) conn))))
      else if f_operator f = ''empty'' then
        (case cast_bool_from_str E (f_value f) of
           Inl e \<Rightarrow> (f, Raise e)
         | Inr b \<Rightarrow>
             (if py_truthy b
              then (f, Continue qs (q_add fe (Q_kwarg field_name (PBool True)) conn))
              else (f, Continue qs (q_add fe (Q_not (Q_kwarg field_name (PBool True))) conn))))
      else if startswith ''not_'' (f_operator f) then
        (case cast_value E f of
           (f', Some e) \<Rightarrow> (f', Raise e)
         | (f', None) \<Rightarrow> (f', Continue qs (q_add fe (Q_not (Q_kwarg field_name (f_value f'))) conn)))
      else
        (case cast_value E f of
           (f', Some e) \<Rightarrow> (f', Raise e)
         | (f', None) \<Rightarrow> (f', Continue qs (q_add fe (Q_kwarg field_name (f_value f')) conn))))"

text \<open>
  The guard at the head of the loop: an item that does not carry the prefix
  \<^verbatim>\<open>filter:tasks:\<close>, or whose value is falsy, is passed over.
\<close>

definition skipped :: "filter_item \<Rightarrow> bool" where
  "skipped f = (\<not> startswith ''filter:tasks:'' (f_filter f) \<or> \<not> py_truthy (f_value f))"

text \<open>
  The body of the loop, for one item: the item as the pass leaves it, and how the pass
  ends.
\<close>

definition process_item ::
  "env \<Rightarrow> bool \<Rightarrow> ConjunctionEnum \<Rightarrow> queryset \<Rightarrow> q \<Rightarrow> filter_item \<Rightarrow> filter_item \<times> step" where
  "process_item E only_undefined_field conn qs fe f =
     (if skipped f
      then (f, Continue qs fe)
      else
        (let field_name = resolve_field_name E only_undefined_field f;
             qs1 = annotate_number_cast f field_name qs;
             clean = clean_field_name f field_name
         in
           (case counter_special_case E clean f of
              (f1, Some e) \<Rightarrow> (f1, Raise e)
            | (f1, None) \<Rightarrow>
                if (f_type f1 = ''String'' \<or> f_type f1 = ''Unknown'') \<and> f_operator f1 = ''empty'' then
                  (case cast_bool_from_str E (f_value f1) of
                     Inl e \<Rightarrow> (f1, Raise e)
                   | Inr b \<Rightarrow> (f1, Continue qs1 (q_add fe (string_empty_q field_name b) conn)))
                else if f_operator f1 = ''regex'' \<and> \<not> re_compiles E (py_str E (f_value f1)) then
                  (f1, Return (qs_none qs1) [Info_incorrect_regex (f_value f1)])
                else generic_predicate E conn qs1 fe clean f1)))"

text \<open>The loop over the items, in their order; it stops at a return and at an exception.\<close>

fun filter_loop ::
  "env \<Rightarrow> bool \<Rightarrow> ConjunctionEnum \<Rightarrow> queryset \<Rightarrow> q \<Rightarrow> filter_item list \<Rightarrow> filter_item list \<times> step" where
  "filter_loop E ouf conn qs fe [] = ([], Continue qs fe)"
| "filter_loop E ouf conn qs fe (f # fs) =
     (case process_item E ouf conn qs fe f of
        (f', Continue qs' fe') \<Rightarrow>
          (case filter_loop E ouf conn qs' fe' fs of (fs', r) \<Rightarrow> (f' # fs', r))
      | (f', Return qs' lg) \<Rightarrow> (f' # fs, Return qs' lg)
      | (f', Raise e) \<Rightarrow> (f' # fs, Raise e))"

text \<open>
  \<^verbatim>\<open>apply_filters\<close>. Its outcome has three parts: the filters as the call leaves them
  (the items are written in place), the query set it returns or the exception it raises,
  and what it logged.
\<close>

record filter_run =
  filters_after :: "filters option"
  returned :: "error + queryset"
  logged :: "log_entry list"

definition apply_filters :: "env \<Rightarrow> queryset \<Rightarrow> filters option \<Rightarrow> filter_run" where
  "apply_filters E qs fo =
     (case fo of
        None \<Rightarrow> \<lparr>filters_after = None, returned = Inr qs, logged = []\<rparr>
      | Some fs \<Rightarrow>
          (let conn = (if conjunction fs = OR then OR else AND);
               only_undefined_field = sample_only_undefined_field qs
           in
             (case filter_loop E only_undefined_field conn qs Q_empty (items fs) of
                (fs', Continue qs' fe) \<Rightarrow>
                  \<lparr>filters_after = Some (fs\<lparr>items := fs'\<rparr>),
                   returned = Inr (qs_filter E fe qs'),
                   logged = [Debug_apply_filter fe]\<rparr>
              | (fs', Return qs' lg) \<Rightarrow>
                  \<lparr>filters_after = Some (fs\<lparr>items := fs'\<rparr>), returned = Inr qs', logged = lg\<rparr>
              | (fs', Raise e) \<Rightarrow>
                  \<lparr>filters_after = Some (fs\<lparr>items := fs'\<rparr>), returned = Inl e, logged = []\<rparr>)))"

section \<open>The ordering applier\<close>

text \<open>The pattern \<^verbatim>\<open>data__\w+\<close> of the substitution (the third character from the end is a backslash).\<close>

definition data_key_pattern :: string where
  "data_key_pattern = ''data__'' @ [CHR 0x5C] @ ''w+''"

text \<open>
  \<^verbatim>\<open>apply_ordering\<close> reads \<^verbatim>\<open>ordering[0]\<close> only. \<^verbatim>\<open>field_name[0]\<close> raises
  IndexError when nothing is left of the entry after \<^verbatim>\<open>tasks:\<close> is taken out.
  The function first settles the query set to sort (annotated with the key of
  \<^verbatim>\<open>data\<close> when the field is one) and the expression \<^verbatim>\<open>f\<close> to sort by, and
  then sorts.
\<close>

definition ordering_plan :: "env \<Rightarrow> queryset \<Rightarrow> string list \<Rightarrow> error + queryset \<times> order_expr" where
  "ordering_plan E qs ordering_list =
     (case ordering_list of
        [] \<Rightarrow> Inr (qs, Name ''id'')
      | entry # others \<Rightarrow>
          (case str_replace ''tasks:'' '''' entry of
             [] \<Rightarrow> Inl IndexError
           | c # cs \<Rightarrow>
               (let ascending = (c \<noteq> CHR ''-'');
                    field_name = (if c = CHR ''-'' then cs else c # cs)
                in
                  if contains ''data.'' field_name then
                    (let field_name1 = str_replace_first ''.'' ''__'' field_name;
                         only_undefined_field = sample_only_undefined_field qs;
                         field_name2 =
                           (if only_undefined_field
                            then re_sub E data_key_pattern (''data__'' @ DATA_UNDEFINED_NAME E) field_name1
                            else field_name1);
                         json_field = str_replace ''data__'' '''' field_name2;
                         qs1 = qs_annotate ''ordering_field'' (KeyTextTransform json_field ''data'') qs
                     in Inr (qs1, if ascending then F_asc_nulls_last ''ordering_field''
                                  else F_desc_nulls_last ''ordering_field''))
                  else
                    Inr (qs, if ascending then F_asc_nulls_last field_name
                             else F_desc_nulls_last field_name))))"

text \<open>The last statement of each branch: \<^verbatim>\<open>queryset.order_by(f)\<close>.\<close>

definition apply_ordering :: "env \<Rightarrow> queryset \<Rightarrow> string list \<Rightarrow> error + queryset" where
  "apply_ordering E qs ordering_list =
     (case ordering_plan E qs ordering_list of
        Inl e \<Rightarrow> Inl e
      | Inr (qs1, f) \<Rightarrow> Inr (qs_order_by E f qs1))"

section \<open>Query assembly\<close>

text \<open>
  \<^verbatim>\<open>TaskQuerySet.prepared\<close>: the project filter, the filters, the ordering, and the
  selection last. The outcome has the parameters as the call leaves them, the query set
  returned or the exception raised, and the log. A call without parameters fails at the
  first attribute it reads.
\<close>

record build =
  params_after :: "prepare_params option"
  built :: "error + queryset"
  build_log :: "log_entry list"

definition apply_selection :: "env \<Rightarrow> selected_items option \<Rightarrow> queryset \<Rightarrow> queryset" where
  "apply_selection E so qs =
     (case so of
        None \<Rightarrow> qs
      | Some sel \<Rightarrow>
          if sel_all sel = False \<and> included sel \<noteq> []
          then qs_filter E (Q_kwarg ''id__in'' (PList (map PInt (included sel)))) qs
          else if sel_all sel = True \<and> excluded sel \<noteq> []
          then qs_exclude E (Q_kwarg ''id__in'' (PList (map PInt (excluded sel)))) qs
          else qs)"

text \<open>The project filter: \<^verbatim>\<open>queryset.filter(project=prepare_params.project)\<close> when a project is given.\<close>

definition filter_project :: "env \<Rightarrow> queryset \<Rightarrow> prepare_params \<Rightarrow> queryset" where
  "filter_project E self pp =
     (case project pp of
        None \<Rightarrow> self
      | Some p \<Rightarrow> qs_filter E (Q_kwarg ''project'' (PInt p)) self)"

definition prepared :: "env \<Rightarrow> queryset \<Rightarrow> prepare_params option \<Rightarrow> build" where
  "prepared E self ppo =
     (case ppo of
        None \<Rightarrow> \<lparr>params_after = None, built = Inl AttributeError, build_log = []\<rparr>
      | Some pp \<Rightarrow>
          (let qs0 = filter_project E self pp;
               run = apply_filters E qs0 (filters pp);
               pp' = pp\<lparr>filters := filters_after run\<rparr>
           in
             (case returned run of
                Inl e \<Rightarrow> \<lparr>params_after = Some pp', built = Inl e, build_log = logged run\<rparr>
              | Inr qs1 \<Rightarrow>
                  (case apply_ordering E qs1 (ordering pp) of
                     Inl e \<Rightarrow> \<lparr>params_after = Some pp', built = Inl e, build_log = logged run\<rparr>
                   | Inr qs2 \<Rightarrow>
                       \<lparr>params_after = Some pp',
                        built = Inr (apply_selection E (selectedItems pp) qs2),
                        build_log = logged run\<rparr>))))"

section \<open>Computed columns\<close>












text \<open>The three counters that every query set of the manager is annotated with.\<close>

definition annotate_counters :: "queryset \<Rightarrow> queryset" where
  "annotate_counters qs =
     qs_annotate ''total_predictions'' (Count ''predictions'' None)
       (qs_annotate ''cancelled_annotations''
          (Count ''annotations'' (Some (Q_kwarg ''annotations__was_cancelled'' (PBool True))))
          (qs_annotate ''total_annotations''
             (Count ''annotations'' (Some (Q_kwarg ''annotations__was_cancelled'' (PBool False)))) qs))"

text \<open>\<^verbatim>\<open>TaskQuerySet(self.model)\<close>: all rows of the table, no annotation, no ordering.\<close>

definition TaskQuerySet :: "task list \<Rightarrow> queryset" where
  "TaskQuerySet table = \<lparr>qs_rows = table, qs_annotations = [], qs_ordered = False\<rparr>"



section \<open>An environment to run the model in\<close>

text \<open>The lower case of an ASCII letter; other characters are left as they are.\<close>

definition ascii_lower :: "char \<Rightarrow> char" where
  "ascii_lower c =
     (let n = (of_char c :: nat) in if 65 \<le> n \<and> n \<le> 90 then char_of (n + 32) else c)"

text \<open>
  Modelled from the spec: \<^verbatim>\<open>cast_bool_from_str\<close> of \<^verbatim>\<open>label_studio.core.utils.params\<close>
  is not in the module. The spec gives it as a permissive rule from strings to booleans:
  the strings \<^verbatim>\<open>1\<close>, \<^verbatim>\<open>true\<close> and \<^verbatim>\<open>yes\<close>, in any case of the letters, are
  true, and everything else is false (the empty string among the examples it lists).
\<close>

definition spec_cast_bool_from_str :: "pyval \<Rightarrow> error + pyval" where
  "spec_cast_bool_from_str v =
     (case v of
        PStr s \<Rightarrow> Inr (PBool (map ascii_lower s \<in> set [''1'', ''true'', ''yes'']))
      | _ \<Rightarrow> Inr (PBool False))"

text \<open>
  The concrete instances below run in this environment. Its number parser reads a
  string of decimal digits; its datetime parser knows the epoch in the format of the
  module; of the patterns the instances use, \<^verbatim>\<open>[\<close> is the one that does not
  compile; numbers are compared by their value and strings character by character.
\<close>

fun digits_value :: "nat \<Rightarrow> string \<Rightarrow> nat option" where
  "digits_value acc [] = Some acc"
| "digits_value acc (c # cs) =
     (let n = (of_char c :: nat) in
      if 48 \<le> n \<and> n \<le> 57 then digits_value (10 * acc + (n - 48)) cs else None)"

definition example_float_of_str :: "string \<Rightarrow> rat option" where
  "example_float_of_str s = (if s = [] then None else map_option of_nat (digits_value 0 s))"

fun str_less :: "string \<Rightarrow> string \<Rightarrow> bool" where
  "str_less [] [] = False"
| "str_less [] (b # bs) = True"
| "str_less (a # as) [] = False"
| "str_less (a # as) (b # bs) =
     ((of_char a :: nat) < of_char b \<or> (a = b \<and> str_less as bs))"

definition example_less :: "pyval \<Rightarrow> pyval \<Rightarrow> bool" where
  "example_less a b =
     (case num_value a of
        Some x \<Rightarrow> (case num_value b of Some y \<Rightarrow> x < y | None \<Rightarrow> False)
      | None \<Rightarrow> (case a of
                   PStr s \<Rightarrow> (case b of PStr u \<Rightarrow> str_less s u | _ \<Rightarrow> False)
                 | _ \<Rightarrow> False))"

definition example_env :: env where
  "example_env =
     \<lparr>cast_bool_from_str = spec_cast_bool_from_str,
      float_of_str = example_float_of_str,
      strptime_str = (\<lambda>s fmt. if s = ''1970-01-01T00:00:00.000000Z'' \<and> fmt = DATETIME_FORMAT
                                then Some 0 else None),
      datetime_min = - 62135596800000000,
      datetime_max = 253402300799999999,
      py_str = (\<lambda>v. case v of PStr s \<Rightarrow> s | _ \<Rightarrow> ''?''),
      re_compiles = (\<lambda>s. s \<noteq> ''[''),
      re_sub = (\<lambda>pattern repl s. s),
      DATA_UNDEFINED_NAME = ''$undefined$'',
      DJANGO_DB_is_sqlite = True,
      task_fields = [''id'', ''data'', ''meta'', ''created_at'', ''updated_at'', ''is_labeled'',
                     ''overlap'', ''project_id'', ''file_upload_id''],
      db_less = example_less,
      db_icontains = (\<lambda>a b. False),
      db_regex = (\<lambda>a b. False),
      db_cast_float = (\<lambda>v. v),
      db_json_text = (\<lambda>v. ''?'')\<rparr>"

text \<open>Three tasks of project 1 with 0, 1 and 2 annotations.\<close>

definition task_with :: "int \<Rightarrow> (string \<times> pyval) list \<Rightarrow> (string \<times> pyval) list \<Rightarrow> task" where
  "task_with i d cols =
     \<lparr>t_id = i, t_project = 1, t_only_undefined_field = False, t_data = d, t_columns = cols\<rparr>"

definition three_tasks :: "task list" where
  "three_tasks =
     [task_with 1 [] [(''total_annotations'', PInt 0)],
      task_with 2 [] [(''total_annotations'', PInt 1)],
      task_with 3 [] [(''total_annotations'', PInt 2)]]"

text \<open>The filter of the end-to-end scenario: the tasks without annotations.\<close>

definition total_annotations_empty :: filter_item where
  "total_annotations_empty =
     \<lparr>f_filter = ''filter:tasks:total_annotations'', f_operator = ''empty'',
      f_type = ''Boolean'', f_value = PStr ''true''\<rparr>"

definition three_tasks_qs :: queryset where
  "three_tasks_qs = annotate_counters (TaskQuerySet three_tasks)"

text \<open>Two items the guard passes over: one with an empty value, one of another namespace.\<close>

definition empty_value_item :: filter_item where
  "empty_value_item =
     \<lparr>f_filter = ''filter:tasks:total_annotations'', f_operator = ''equal'',
      f_type = ''Number'', f_value = PStr ''''\<rparr>"

definition annotations_namespace_item :: filter_item where
  "annotations_namespace_item =
     \<lparr>f_filter = ''filter:annotations:result'', f_operator = ''regex'',
      f_type = ''String'', f_value = PStr ''[''\<rparr>"

text \<open>
  A regex filter whose pattern does not compile, a number filter whose value is not a
  number, and a filter for the tasks whose text is empty.
\<close>

definition bad_regex_item :: filter_item where
  "bad_regex_item =
     \<lparr>f_filter = ''filter:tasks:data.text'', f_operator = ''regex'',
      f_type = ''String'', f_value = PStr ''[''\<rparr>"

definition unparsable_number_item :: filter_item where
  "unparsable_number_item =
     \<lparr>f_filter = ''filter:tasks:total_annotations'', f_operator = ''equal'',
      f_type = ''Number'', f_value = PStr ''abc''\<rparr>"

definition text_empty_item :: filter_item where
  "text_empty_item =
     \<lparr>f_filter = ''filter:tasks:data.text'', f_operator = ''empty'',
      f_type = ''String'', f_value = PStr ''true''\<rparr>"

text \<open>Four tasks whose text is empty, null, unset and \<^verbatim>\<open>hello\<close>.\<close>

definition text_tasks :: "task list" where
  "text_tasks =
     [task_with 1 [(''text'', PStr '''')] [],
      task_with 2 [(''text'', PNone)] [],
      task_with 3 [] [],
      task_with 4 [(''text'', PStr ''hello'')] []]"

definition text_tasks_qs :: queryset where
  "text_tasks_qs = annotate_counters (TaskQuerySet text_tasks)"

text \<open>An \<^verbatim>\<open>empty\<close> filter of type String on a counter.\<close>

definition counter_string_item :: filter_item where
  "counter_string_item =
     \<lparr>f_filter = ''filter:tasks:total_annotations'', f_operator = ''empty'',
      f_type = ''String'', f_value = PStr ''true''\<rparr>"

text \<open>Parameters without filters and ordering, with a selection.\<close>

definition select_only :: "selected_items \<Rightarrow> prepare_params" where
  "select_only sel = \<lparr>project = None, ordering = [], selectedItems = Some sel, filters = None\<rparr>"










section \<open>Properties of the predicate builder\<close>

subsection \<open>Field names of the counters\<close>

lemma strip_counter_prefix:
  "c \<in> set counters \<Longrightarrow> str_replace ''filter:tasks:'' '''' (''filter:tasks:'' @ c) = c"
  by (auto simp: counters_def)

lemma counter_not_data:
  "c \<in> set counters \<Longrightarrow>
     \<not> startswith ''data.'' c \<and> \<not> startswith ''data__'' c \<and> c \<noteq> ''file_upload''"
  by (auto simp: counters_def)

lemma counter_field_name:
  assumes "f_filter f = ''filter:tasks:'' @ c" and "c \<in> set counters"
  shows "resolve_field_name E ouf f = c"
    and "clean_field_name f c = c"
    and "annotate_number_cast f c qs = qs"
  using assms counter_not_data[of c] strip_counter_prefix[of c]
  by (simp_all add: resolve_field_name_def preprocess_field_name_def clean_field_name_def
      annotate_number_cast_def needs_number_cast_def Let_def)

lemma cast_value_operator: "f_operator (fst (cast_value E f)) = f_operator f"
  by (auto simp: cast_value_def cast_range_def cast_scalar_def split: sum.splits)

lemma py_eq_zero: "num_value z = Some 0 \<Longrightarrow> py_eq (PInt k) z = (k = 0)"
  by (simp add: py_eq_def)

lemma num_value_not_None: "num_value z = Some r \<Longrightarrow> z \<noteq> PNone"
  by auto

lemma counter_empty_item:
  assumes "f_filter f = ''filter:tasks:'' @ c" and "c \<in> set counters"
    and "f_operator f = ''empty''" and "py_truthy (f_value f)"
    and "cast_bool_from_str E (f_value f) = Inr b"
  shows "process_item E ouf conn qs fe f =
     (case cast_value E (f\<lparr>f_operator := (if py_truthy b then ''equal'' else ''not_equal''),
                           f_value := PInt 0\<rparr>) of
        (g, Some e) \<Rightarrow> (g, Raise e)
      | (g, None) \<Rightarrow>
          (g, Continue qs (q_add fe (if py_truthy b then Q_kwarg c (f_value g)
                                     else Q_not (Q_kwarg c (f_value g))) conn)))"
proof -
  have pre: "\<not> skipped f"
    using assms(1,4) by (simp add: skipped_def)
  show ?thesis
    using assms pre counter_field_name[OF assms(1,2)]
    by (simp add: process_item_def counter_special_case_def generic_predicate_def Let_def
        operators_get_def operators_def split: prod.splits option.splits)
qed

lemma counter_empty_operator:
  assumes "f_filter f = ''filter:tasks:'' @ c" and "c \<in> set counters"
    and "f_operator f = ''empty''" and "py_truthy (f_value f)"
    and "cast_bool_from_str E (f_value f) = Inr b"
  shows "f_operator (fst (process_item E ouf conn qs fe f)) =
           (if py_truthy b then ''equal'' else ''not_equal'')"
proof -
  let ?g = "f\<lparr>f_operator := (if py_truthy b then ''equal'' else ''not_equal''), f_value := PInt 0\<rparr>"
  have "fst (process_item E ouf conn qs fe f) = fst (cast_value E ?g)"
    unfolding counter_empty_item[OF assms] by (simp split: prod.splits option.splits)
  then show ?thesis
    using cast_value_operator[of E ?g] by simp
qed

lemma total_annotations_scenario:
  assumes "cast_bool_from_str E (PStr ''true'') = Inr bt" and "py_truthy bt"
    and "cast_bool_from_str E (PInt 0) = Inr z" and "num_value z = Some 0"
  shows "\<exists>qs'. returned (apply_filters E three_tasks_qs
                   (Some \<lparr>conjunction = cj, items = [total_annotations_empty]\<rparr>)) = Inr qs'
           \<and> qs_rows qs' = [task_with 1 [] [(''total_annotations'', PInt 0)]]"
  using assms num_value_not_None[OF assms(4)]
  by (simp add: apply_filters_def process_item_def skipped_def total_annotations_empty_def
      resolve_field_name_def preprocess_field_name_def clean_field_name_def
      annotate_number_cast_def needs_number_cast_def Let_def counter_special_case_def counters_def
      generic_predicate_def operators_get_def operators_def cast_value_def cast_scalar_def
      Q_empty_def qs_filter_def annotate_counters_def TaskQuerySet_def qs_annotate_def
      three_tasks_qs_def three_tasks_def task_with_def field_value_def split_lookup_def
      endswith_def py_eq_zero)

subsection \<open>C1: the counters and the operator \<^verbatim>\<open>empty\<close>\<close>

text \<open>
  Claim C1, as amended. Take a filter item on one of the three counters
  (\<^verbatim>\<open>total_predictions\<close>, \<^verbatim>\<open>total_annotations\<close>, \<^verbatim>\<open>cancelled_annotations\<close>) with
  the operator \<^verbatim>\<open>empty\<close> and a truthy value that \<^verbatim>\<open>cast_bool_from_str\<close> coerces to
  \<open>b\<close>. The pass of the loop over the item rewrites it in place: its operator becomes
  \<^verbatim>\<open>equal\<close> when \<open>b\<close> is true and \<^verbatim>\<open>not_equal\<close> when it is false, its value
  becomes 0, and the item is then handled as that comparison: value coercion runs on it,
  and the predicate emitted is the counter equal to the coerced 0, negated for
  \<^verbatim>\<open>not_equal\<close>. In particular, over the three tasks with 0, 1 and 2 annotations, the
  filter \<^verbatim>\<open>{filter: "filter:tasks:total_annotations", operator: "empty",
  type: "Boolean", value: "true"}\<close> returns the task without annotations and no other,
  whenever the helper coerces \<^verbatim>\<open>"true"\<close> to a true value and 0 to a value that is
  numerically zero.

  The claim as given does not ask for a truthy value; an item whose value is falsy is
  passed over by the guard at the head of the loop, whatever it coerces to.
\<close>

theorem counter_empty_rewritten_to_comparison_with_zero:
  "(f_filter f = ''filter:tasks:'' @ c \<and> c \<in> set counters \<and> f_operator f = ''empty''
      \<and> py_truthy (f_value f) \<and> cast_bool_from_str E (f_value f) = Inr b \<longrightarrow>
      f_operator (fst (process_item E ouf conn qs fe f)) =
        (if py_truthy b then ''equal'' else ''not_equal'')
      \<and> process_item E ouf conn qs fe f =
        (case cast_value E (f\<lparr>f_operator := (if py_truthy b then ''equal'' else ''not_equal''),
                              f_value := PInt 0\<rparr>) of
           (g, Some e) \<Rightarrow> (g, Raise e)
         | (g, None) \<Rightarrow>
             (g, Continue qs (q_add fe (if py_truthy b then Q_kwarg c (f_value g)
                                        else Q_not (Q_kwarg c (f_value g))) conn))))
   \<and> (cast_bool_from_str E (PStr ''true'') = Inr bt \<and> py_truthy bt
      \<and> cast_bool_from_str E (PInt 0) = Inr z \<and> num_value z = Some 0 \<longrightarrow>
      (\<exists>qs'. returned (apply_filters E three_tasks_qs
                 (Some \<lparr>conjunction = cj, items = [total_annotations_empty]\<rparr>)) = Inr qs'
         \<and> qs_rows qs' = [task_with 1 [] [(''total_annotations'', PInt 0)]]))"
  using counter_empty_item[of f c E b ouf conn qs fe]
    counter_empty_operator[of f c E b ouf conn qs fe]
    total_annotations_scenario[of E bt z cj]
  by blast

theorem counter_empty_rewritten_witness:
  "process_item example_env False AND three_tasks_qs Q_empty total_annotations_empty =
     (total_annotations_empty\<lparr>f_operator := ''equal'', f_value := PBool False\<rparr>,
      Continue three_tasks_qs (Q_node AND [Q_kwarg ''total_annotations'' (PBool False)]))
   \<and> (\<exists>qs'. returned (apply_filters example_env three_tasks_qs
                (Some \<lparr>conjunction = AND, items = [total_annotations_empty]\<rparr>)) = Inr qs'
         \<and> qs_rows qs' = [task_with 1 [] [(''total_annotations'', PInt 0)]])"
  using counter_empty_rewritten_to_comparison_with_zero
    [where f = total_annotations_empty and c = "''total_annotations''" and E = example_env
       and b = "PBool True" and bt = "PBool True" and z = "PBool False" and cj = AND
       and ouf = False and conn = AND and qs = three_tasks_qs and fe = Q_empty]
  by (simp add: total_annotations_empty_def counters_def example_env_def
      spec_cast_bool_from_str_def ascii_lower_def cast_value_def cast_scalar_def Q_empty_def)

text \<open>
  The claim as given fails for a falsy value. The empty string coerces to false, and so
  does the JSON value \<^verbatim>\<open>false\<close>, so the claim has the item rewritten to
  \<^verbatim>\<open>not_equal\<close> 0. Either value is falsy: the item is passed over, its operator
  stays \<^verbatim>\<open>empty\<close>, and all three tasks are returned, the one without annotations
  among them.
\<close>

theorem counter_empty_falsy_value_counterexample:
  "cast_bool_from_str example_env (PStr '''') = Inr (PBool False)
   \<and> filters_after (apply_filters example_env three_tasks_qs
        (Some \<lparr>conjunction = AND, items = [total_annotations_empty\<lparr>f_value := PStr ''''\<rparr>]\<rparr>))
      = Some \<lparr>conjunction = AND, items = [total_annotations_empty\<lparr>f_value := PStr ''''\<rparr>]\<rparr>
   \<and> f_operator (total_annotations_empty\<lparr>f_value := PStr ''''\<rparr>) = ''empty''
   \<and> returned (apply_filters example_env three_tasks_qs
        (Some \<lparr>conjunction = AND, items = [total_annotations_empty\<lparr>f_value := PStr ''''\<rparr>]\<rparr>))
      = Inr three_tasks_qs
   \<and> cast_bool_from_str example_env (PBool False) = Inr (PBool False)
   \<and> filters_after (apply_filters example_env three_tasks_qs
        (Some \<lparr>conjunction = AND, items = [total_annotations_empty\<lparr>f_value := PBool False\<rparr>]\<rparr>))
      = Some \<lparr>conjunction = AND, items = [total_annotations_empty\<lparr>f_value := PBool False\<rparr>]\<rparr>
   \<and> f_operator (total_annotations_empty\<lparr>f_value := PBool False\<rparr>) = ''empty''
   \<and> returned (apply_filters example_env three_tasks_qs
        (Some \<lparr>conjunction = AND, items = [total_annotations_empty\<lparr>f_value := PBool False\<rparr>]\<rparr>))
      = Inr three_tasks_qs"
  by (simp add: apply_filters_def process_item_def skipped_def total_annotations_empty_def
      example_env_def spec_cast_bool_from_str_def Q_empty_def qs_filter_def)

subsection \<open>The loop over the items\<close>

lemma process_item_skipped: "skipped f \<Longrightarrow> process_item E ouf conn qs fe f = (f, Continue qs fe)"
  by (simp add: process_item_def)

lemma filter_loop_all_skipped:
  "list_all skipped fs \<Longrightarrow> filter_loop E ouf conn qs fe fs = (fs, Continue qs fe)"
  by (induction fs) (simp_all add: process_item_skipped)

lemma filter_loop_Cons_snd:
  "snd (filter_loop E ouf conn qs fe (f # fs)) =
     (case snd (process_item E ouf conn qs fe f) of
        Continue qs' fe' \<Rightarrow> snd (filter_loop E ouf conn qs' fe' fs)
      | Return qs' lg \<Rightarrow> Return qs' lg
      | Raise e \<Rightarrow> Raise e)"
  by (simp split: prod.splits step.splits)

lemma filter_loop_drop_skipped:
  "snd (filter_loop E ouf conn qs fe fs) =
   snd (filter_loop E ouf conn qs fe (filter (\<lambda>f. \<not> skipped f) fs))"
proof (induction fs arbitrary: qs fe)
  case Nil
  show ?case by simp
next
  case (Cons f fs)
  show ?case
  proof (cases "skipped f")
    case True
    then show ?thesis
      using Cons.IH[of qs fe]
      by (simp add: filter_loop_Cons_snd process_item_skipped del: filter_loop.simps)
  next
    case False
    then show ?thesis
      by (simp add: filter_loop_Cons_snd Cons.IH del: filter_loop.simps split: step.splits)
  qed
qed

lemma filter_loop_append:
  "filter_loop E ouf conn qs fe (pre @ rest) =
     (case filter_loop E ouf conn qs fe pre of
        (pre', Continue qs' fe') \<Rightarrow>
          (case filter_loop E ouf conn qs' fe' rest of (rest', r) \<Rightarrow> (pre' @ rest', r))
      | (pre', Return qs' lg) \<Rightarrow> (pre' @ rest, Return qs' lg)
      | (pre', Raise e) \<Rightarrow> (pre' @ rest, Raise e))"
  by (induction pre arbitrary: qs fe) (auto split: prod.splits step.splits)

lemma conjunction_connector: "(if c = OR then OR else AND) = c"
  by (cases c) simp_all

lemma qs_filter_Q_empty: "qs_filter E Q_empty qs = qs"
  by (simp add: qs_filter_def Q_empty_def)

lemma apply_filters_result:
  "returned (apply_filters E qs (Some fs)) =
     (case snd (filter_loop E (sample_only_undefined_field qs) (conjunction fs) qs Q_empty (items fs)) of
        Continue qs' fe \<Rightarrow> Inr (qs_filter E fe qs')
      | Return qs' lg \<Rightarrow> Inr qs'
      | Raise e \<Rightarrow> Inl e)"
  by (simp add: apply_filters_def conjunction_connector Let_def split: prod.splits step.splits)

lemma apply_filters_logged:
  "logged (apply_filters E qs (Some fs)) =
     (case snd (filter_loop E (sample_only_undefined_field qs) (conjunction fs) qs Q_empty (items fs)) of
        Continue qs' fe \<Rightarrow> [Debug_apply_filter fe]
      | Return qs' lg \<Rightarrow> lg
      | Raise e \<Rightarrow> [])"
  by (simp add: apply_filters_def conjunction_connector Let_def split: prod.splits step.splits)

subsection \<open>C4: items that contribute nothing\<close>

text \<open>
  Claim C4. A filter item whose value is falsy, or whose field path does not start with
  \<^verbatim>\<open>filter:tasks:\<close>, contributes no predicate: the pass over it leaves the query set,
  the filter expression and the item as they were. Absent filters return the query set
  given. Filters whose items are all of that kind (an empty list of items among them)
  return the query set given, so the same records. And what \<^verbatim>\<open>apply_filters\<close> returns
  does not change when such items are taken out of the list.
\<close>

theorem skipped_items_contribute_no_predicate:
  "(skipped f \<longrightarrow> process_item E ouf conn qs fe f = (f, Continue qs fe))
   \<and> returned (apply_filters E qs None) = Inr qs
   \<and> (list_all skipped (items fs) \<longrightarrow> returned (apply_filters E qs (Some fs)) = Inr qs)
   \<and> returned (apply_filters E qs (Some fs)) =
       returned (apply_filters E qs (Some (fs\<lparr>items := filter (\<lambda>f. \<not> skipped f) (items fs)\<rparr>)))"
proof (intro conjI impI)
  show "process_item E ouf conn qs fe f = (f, Continue qs fe)" if "skipped f"
    using that by (rule process_item_skipped)
  show "returned (apply_filters E qs None) = Inr qs"
    by (simp add: apply_filters_def)
  show "returned (apply_filters E qs (Some fs)) = Inr qs" if "list_all skipped (items fs)"
    using that by (simp add: apply_filters_result filter_loop_all_skipped qs_filter_Q_empty)
  show "returned (apply_filters E qs (Some fs)) =
        returned (apply_filters E qs (Some (fs\<lparr>items := filter (\<lambda>f. \<not> skipped f) (items fs)\<rparr>)))"
    using filter_loop_drop_skipped[of E "sample_only_undefined_field qs" "conjunction fs" qs Q_empty "items fs"]
    by (simp add: apply_filters_result)
qed

theorem skipped_items_witness:
  "skipped empty_value_item \<and> skipped annotations_namespace_item
   \<and> process_item example_env False OR three_tasks_qs Q_empty empty_value_item =
       (empty_value_item, Continue three_tasks_qs Q_empty)
   \<and> returned (apply_filters example_env three_tasks_qs None) = Inr three_tasks_qs
   \<and> returned (apply_filters example_env three_tasks_qs
        (Some \<lparr>conjunction = OR, items = [empty_value_item, annotations_namespace_item]\<rparr>))
      = Inr three_tasks_qs
   \<and> returned (apply_filters example_env three_tasks_qs
        (Some \<lparr>conjunction = OR, items = [empty_value_item, annotations_namespace_item]\<rparr>))
      = returned (apply_filters example_env three_tasks_qs (Some \<lparr>conjunction = OR, items = []\<rparr>))"
proof -
  have s1: "skipped empty_value_item" and s2: "skipped annotations_namespace_item"
    by (simp_all add: skipped_def empty_value_item_def annotations_namespace_item_def)
  show ?thesis
    using s1 s2 skipped_items_contribute_no_predicate
      [where f = empty_value_item and E = example_env and ouf = False and conn = OR
         and qs = three_tasks_qs and fe = Q_empty
         and fs = "\<lparr>conjunction = OR, items = [empty_value_item, annotations_namespace_item]\<rparr>"]
    by auto
qed

subsection \<open>C3: a regex that does not compile\<close>

lemma generic_predicate_no_Return:
  "snd (generic_predicate E conn qs fe clean f) \<noteq> Return q lg"
  by (simp add: generic_predicate_def Let_def split: prod.splits option.splits sum.splits)

lemma process_item_Return:
  assumes "snd (process_item E ouf conn qs fe f) = Return q lg"
  shows "qs_rows q = [] \<and> (\<exists>v. lg = [Info_incorrect_regex v])"
proof (cases "skipped f")
  case True
  then show ?thesis using assms by (simp add: process_item_skipped)
next
  case False
  obtain f1 r where c: "counter_special_case E
      (clean_field_name f (resolve_field_name E ouf f)) f = (f1, r)"
    by (cases "counter_special_case E (clean_field_name f (resolve_field_name E ouf f)) f")
  show ?thesis
    using assms False c generic_predicate_no_Return[of E conn _ fe _ f1 q lg]
    by (auto simp: process_item_def Let_def qs_none_def split: option.splits sum.splits if_splits)
qed

lemma filter_loop_Return:
  "snd (filter_loop E ouf conn qs fe fs) = Return q lg \<Longrightarrow>
     qs_rows q = [] \<and> (\<exists>v. lg = [Info_incorrect_regex v])"
proof (induction fs arbitrary: qs fe)
  case Nil
  then show ?case by simp
next
  case (Cons f fs)
  show ?case
  proof (cases "snd (process_item E ouf conn qs fe f)")
    case (Continue qs' fe')
    then show ?thesis
      using Cons.prems Cons.IH[of qs' fe']
      by (simp add: filter_loop_Cons_snd del: filter_loop.simps)
  next
    case (Return q' lg')
    then show ?thesis
      using Cons.prems process_item_Return[of E ouf conn qs fe f q' lg']
      by (simp add: filter_loop_Cons_snd del: filter_loop.simps)
  next
    case (Raise e)
    then show ?thesis
      using Cons.prems by (simp add: filter_loop_Cons_snd del: filter_loop.simps)
  qed
qed

lemma counter_special_case_other_operator:
  "f_operator f \<noteq> ''empty'' \<Longrightarrow> counter_special_case E clean f = (f, None)"
  by (simp add: counter_special_case_def)

lemma regex_item_returns_none:
  assumes "\<not> skipped f" and "f_operator f = ''regex''"
    and "\<not> re_compiles E (py_str E (f_value f))"
  shows "process_item E ouf conn qs fe f =
           (f, Return (qs_none (annotate_number_cast f (resolve_field_name E ouf f) qs))
                 [Info_incorrect_regex (f_value f)])"
  using assms
  by (simp add: process_item_def Let_def counter_special_case_other_operator)

lemma filter_loop_snd_append:
  "snd (filter_loop E ouf conn qs fe (pre @ rest)) =
     (case snd (filter_loop E ouf conn qs fe pre) of
        Continue qs' fe' \<Rightarrow> snd (filter_loop E ouf conn qs' fe' rest)
      | Return qs' lg \<Rightarrow> Return qs' lg
      | Raise e \<Rightarrow> Raise e)"
  by (simp add: filter_loop_append split: prod.splits step.splits)

text \<open>
  Claim C3, as amended. Let the filters hold an item with the operator \<^verbatim>\<open>regex\<close>
  whose value does not compile as a pattern, let the item carry the prefix
  \<^verbatim>\<open>filter:tasks:\<close> and a truthy value (so that the guard does not pass over it),
  and let the items before it, applied alone, raise no exception. Then
  \<^verbatim>\<open>apply_filters\<close> raises nothing: it returns a query set without rows, and its log
  has the entry for an incorrect regex.

  The claim as given speaks of every filters value that contains such an item; an item
  of another namespace is passed over, and an item before it that raises ends the call
  before the pattern is looked at.
\<close>

theorem bad_regex_returns_empty_set:
  "items fs = pre @ f # post
   \<and> (\<forall>e. returned (apply_filters E qs (Some (fs\<lparr>items := pre\<rparr>))) \<noteq> Inl e)
   \<and> \<not> skipped f \<and> f_operator f = ''regex'' \<and> \<not> re_compiles E (py_str E (f_value f))
   \<longrightarrow>
     (\<exists>qs'. returned (apply_filters E qs (Some fs)) = Inr qs' \<and> qs_rows qs' = [])
     \<and> (\<exists>v. Info_incorrect_regex v \<in> set (logged (apply_filters E qs (Some fs))))"
proof (intro impI, elim conjE)
  let ?ouf = "sample_only_undefined_field qs"
  let ?c = "conjunction fs"
  assume it: "items fs = pre @ f # post"
    and noraise: "\<forall>e. returned (apply_filters E qs (Some (fs\<lparr>items := pre\<rparr>))) \<noteq> Inl e"
    and f: "\<not> skipped f" "f_operator f = ''regex''" "\<not> re_compiles E (py_str E (f_value f))"
  have pre: "\<forall>e. snd (filter_loop E ?ouf ?c qs Q_empty pre) \<noteq> Raise e"
    using noraise by (auto simp: apply_filters_result split: step.splits)
  have "\<exists>q lg. snd (filter_loop E ?ouf ?c qs Q_empty (items fs)) = Return q lg"
  proof (cases "snd (filter_loop E ?ouf ?c qs Q_empty pre)")
    case (Continue qs' fe')
    then show ?thesis
      using regex_item_returns_none[OF f, of ?ouf ?c qs' fe']
      by (simp add: it filter_loop_snd_append filter_loop_Cons_snd del: filter_loop.simps)
  next
    case (Return q lg)
    then show ?thesis
      by (simp add: it filter_loop_snd_append del: filter_loop.simps)
  next
    case (Raise e)
    then show ?thesis using pre by simp
  qed
  then obtain q lg where r: "snd (filter_loop E ?ouf ?c qs Q_empty (items fs)) = Return q lg"
    by blast
  from filter_loop_Return[OF r] obtain v where "qs_rows q = []" and "lg = [Info_incorrect_regex v]"
    by blast
  then show "(\<exists>qs'. returned (apply_filters E qs (Some fs)) = Inr qs' \<and> qs_rows qs' = [])
     \<and> (\<exists>v. Info_incorrect_regex v \<in> set (logged (apply_filters E qs (Some fs))))"
    using r by (simp add: apply_filters_result apply_filters_logged)
qed

theorem bad_regex_witness:
  "(\<exists>qs'. returned (apply_filters example_env text_tasks_qs
       (Some \<lparr>conjunction = AND,
              items = [total_annotations_empty, bad_regex_item, unparsable_number_item]\<rparr>)) = Inr qs'
       \<and> qs_rows qs' = [])
   \<and> (\<exists>v. Info_incorrect_regex v \<in> set (logged (apply_filters example_env text_tasks_qs
       (Some \<lparr>conjunction = AND,
              items = [total_annotations_empty, bad_regex_item, unparsable_number_item]\<rparr>))))"
proof -
  have pre: "\<forall>e. returned (apply_filters example_env text_tasks_qs
       (Some (\<lparr>conjunction = AND,
              items = [total_annotations_empty, bad_regex_item, unparsable_number_item]\<rparr>
               \<lparr>items := [total_annotations_empty]\<rparr>))) \<noteq> Inl e"
    by (simp add: apply_filters_result process_item_def skipped_def total_annotations_empty_def
        resolve_field_name_def preprocess_field_name_def clean_field_name_def
        annotate_number_cast_def needs_number_cast_def Let_def counter_special_case_def
        counters_def generic_predicate_def operators_get_def operators_def cast_value_def
        cast_scalar_def example_env_def spec_cast_bool_from_str_def ascii_lower_def)
  have f: "\<not> skipped bad_regex_item" "f_operator bad_regex_item = ''regex''"
    "\<not> re_compiles example_env (py_str example_env (f_value bad_regex_item))"
    by (simp_all add: skipped_def bad_regex_item_def example_env_def)
  show ?thesis
    using pre f bad_regex_returns_empty_set
      [where fs = "\<lparr>conjunction = AND,
              items = [total_annotations_empty, bad_regex_item, unparsable_number_item]\<rparr>"
         and pre = "[total_annotations_empty]" and f = bad_regex_item
         and post = "[unparsable_number_item]" and E = example_env and qs = text_tasks_qs]
    by simp
qed

text \<open>
  The claim as given fails twice. A regex item of another namespace is passed over, and
  all rows are returned. And a number filter that does not parse, standing before the
  regex item, raises ValueError to the caller.
\<close>

theorem bad_regex_counterexample:
  "f_operator annotations_namespace_item = ''regex''
   \<and> \<not> re_compiles example_env (py_str example_env (f_value annotations_namespace_item))
   \<and> returned (apply_filters example_env text_tasks_qs
        (Some \<lparr>conjunction = AND, items = [annotations_namespace_item]\<rparr>)) = Inr text_tasks_qs
   \<and> qs_rows text_tasks_qs \<noteq> []
   \<and> f_operator bad_regex_item = ''regex''
   \<and> \<not> re_compiles example_env (py_str example_env (f_value bad_regex_item))
   \<and> returned (apply_filters example_env text_tasks_qs
        (Some \<lparr>conjunction = AND, items = [unparsable_number_item, bad_regex_item]\<rparr>))
      = Inl ValueError"
proof -
  have a: "returned (apply_filters example_env text_tasks_qs
        (Some \<lparr>conjunction = AND, items = [annotations_namespace_item]\<rparr>)) = Inr text_tasks_qs"
    by (simp add: apply_filters_result process_item_def skipped_def
        annotations_namespace_item_def qs_filter_Q_empty)
  have b: "returned (apply_filters example_env text_tasks_qs
        (Some \<lparr>conjunction = AND, items = [unparsable_number_item, bad_regex_item]\<rparr>))
      = Inl ValueError"
    by (simp add: apply_filters_result process_item_def skipped_def unparsable_number_item_def
        resolve_field_name_def preprocess_field_name_def clean_field_name_def
        annotate_number_cast_def needs_number_cast_def Let_def counter_special_case_def
        generic_predicate_def operators_get_def operators_def cast_value_def cast_scalar_def
        example_env_def example_float_of_str_def)
  show ?thesis
    using a b
    by (simp add: annotations_namespace_item_def bad_regex_item_def example_env_def
        text_tasks_qs_def text_tasks_def annotate_counters_def TaskQuerySet_def qs_annotate_def)
qed

subsection \<open>C2: strings and the operator \<^verbatim>\<open>empty\<close>\<close>

lemma startswith_append: "startswith p (p @ s)"
  by (induction p) simp_all

lemma split_lookup_isnull: "split_lookup (fn @ ''__isnull'') = (fn, IsNull)"
proof -
  have "endswith ''__isnull'' (fn @ ''__isnull'')"
    unfolding endswith_def rev_append by (rule startswith_append)
  then show ?thesis
    by (simp add: split_lookup_def strip_suffix_def)
qed

lemma split_lookup_Exact: "snd (split_lookup k) = Exact \<Longrightarrow> split_lookup k = (k, Exact)"
  by (simp add: split_lookup_def split: if_splits)

lemma is_null_iff: "is_null x = (x = None \<or> x = Some PNone)"
  by (cases x rule: is_null.cases) simp_all

lemma with_value_empty_string:
  "with_value x (\<lambda>y. py_eq y (PStr '''')) = (x = Some (PStr ''''))"
proof (cases x)
  case None
  then show ?thesis by simp
next
  case (Some y)
  then show ?thesis
    by (cases y) (auto simp: py_eq_def)
qed

lemma string_empty_q_holds:
  assumes "snd (split_lookup fn) = Exact"
  shows "q_holds E qs t (string_empty_q fn b) =
           (if py_truthy b then field_value E qs t fn \<in> {Some (PStr ''''), Some PNone, None}
            else field_value E qs t fn \<notin> {Some (PStr ''''), Some PNone, None})"
  using split_lookup_Exact[OF assms]
  by (auto simp: string_empty_q_def Q_or_def Q_and_def split_lookup_isnull
      with_value_empty_string is_null_iff)

lemma string_empty_q_not_empty: "\<not> q_is_empty (string_empty_q fn b)"
  by (simp add: string_empty_q_def Q_or_def Q_and_def)

lemma q_holds_first_added:
  "\<not> q_is_empty p \<Longrightarrow> q_holds E qs t (q_add Q_empty p c) = q_holds E qs t p"
  by (cases c) (simp_all add: Q_empty_def)

lemma string_empty_item:
  assumes "\<not> skipped f" and "f_type f = ''String'' \<or> f_type f = ''Unknown''"
    and "f_operator f = ''empty''" and "resolve_field_name E ouf f \<notin> set counters"
    and "cast_bool_from_str E (f_value f) = Inr b"
  shows "process_item E ouf conn qs fe f =
           (f, Continue qs (q_add fe (string_empty_q (resolve_field_name E ouf f) b) conn))"
proof -
  have n: "\<not> needs_number_cast f (resolve_field_name E ouf f)"
    using assms(2) by (auto simp: needs_number_cast_def)
  show ?thesis
    using assms n
    by (simp add: process_item_def Let_def clean_field_name_def annotate_number_cast_def
        counter_special_case_def)
qed

text \<open>
  Claim C2, as amended. Take a filter item of type \<^verbatim>\<open>String\<close> or \<^verbatim>\<open>Unknown\<close>
  with the operator \<^verbatim>\<open>empty\<close> that the guard does not pass over (it carries the
  prefix \<^verbatim>\<open>filter:tasks:\<close> and a truthy value), whose field \<open>fn\<close> is not one of the
  three counters and is not read by the ORM as a lookup, and whose value
  \<^verbatim>\<open>cast_bool_from_str\<close> coerces to \<open>b\<close>. The pass over the item leaves the item as
  it was and adds one predicate, the same under both conjunctions. When \<open>b\<close> is true the
  predicate holds exactly of the rows whose field is the empty string, null or unset;
  when \<open>b\<close> is false it holds exactly of the other rows. Filters made of that one item
  return exactly those rows.

  The claim as given speaks of every such item. An item with a falsy value, or of
  another namespace, is passed over and adds no predicate; and on a counter the special
  case of the counters comes first, so that the predicate compares the counter with 0.
\<close>

theorem string_empty_predicate:
  "\<not> skipped f \<and> (f_type f = ''String'' \<or> f_type f = ''Unknown'') \<and> f_operator f = ''empty''
   \<and> fn = resolve_field_name E ouf f \<and> fn \<notin> set counters \<and> snd (split_lookup fn) = Exact
   \<and> cast_bool_from_str E (f_value f) = Inr b
   \<longrightarrow>
     process_item E ouf conn qs fe f = (f, Continue qs (q_add fe (string_empty_q fn b) conn))
     \<and> (\<forall>qs' t. q_holds E qs' t (string_empty_q fn b) =
           (if py_truthy b then field_value E qs' t fn \<in> {Some (PStr ''''), Some PNone, None}
            else field_value E qs' t fn \<notin> {Some (PStr ''''), Some PNone, None}))
     \<and> (ouf = sample_only_undefined_field qs \<longrightarrow>
          returned (apply_filters E qs (Some \<lparr>conjunction = conn, items = [f]\<rparr>)) =
            Inr (qs\<lparr>qs_rows :=
                   filter (\<lambda>t. if py_truthy b
                                then field_value E qs t fn \<in> {Some (PStr ''''), Some PNone, None}
                                else field_value E qs t fn \<notin> {Some (PStr ''''), Some PNone, None})
                     (qs_rows qs)\<rparr>))"
proof (intro impI, elim conjE)
  assume f: "\<not> skipped f" "f_type f = ''String'' \<or> f_type f = ''Unknown''" "f_operator f = ''empty''"
    and fn: "fn = resolve_field_name E ouf f" "fn \<notin> set counters" "snd (split_lookup fn) = Exact"
    and b: "cast_bool_from_str E (f_value f) = Inr b"
  have item: "process_item E ouf conn qs fe f =
      (f, Continue qs (q_add fe (string_empty_q fn b) conn))" for qs fe
    using string_empty_item[OF f(1,2,3) _ b, of ouf conn qs fe] fn(1,2) by simp
  have sem: "q_holds E qs' t (string_empty_q fn b) =
           (if py_truthy b then field_value E qs' t fn \<in> {Some (PStr ''''), Some PNone, None}
            else field_value E qs' t fn \<notin> {Some (PStr ''''), Some PNone, None})" for qs' t
    by (rule string_empty_q_holds[OF fn(3)])
  have run: "returned (apply_filters E qs (Some \<lparr>conjunction = conn, items = [f]\<rparr>)) =
            Inr (qs\<lparr>qs_rows :=
                   filter (\<lambda>t. if py_truthy b
                                then field_value E qs t fn \<in> {Some (PStr ''''), Some PNone, None}
                                else field_value E qs t fn \<notin> {Some (PStr ''''), Some PNone, None})
                     (qs_rows qs)\<rparr>)"
    if "ouf = sample_only_undefined_field qs"
    using item[of qs Q_empty] that
    by (simp add: apply_filters_result qs_filter_def q_holds_first_added
        string_empty_q_not_empty sem)
  show "process_item E ouf conn qs fe f = (f, Continue qs (q_add fe (string_empty_q fn b) conn))
     \<and> (\<forall>qs' t. q_holds E qs' t (string_empty_q fn b) =
           (if py_truthy b then field_value E qs' t fn \<in> {Some (PStr ''''), Some PNone, None}
            else field_value E qs' t fn \<notin> {Some (PStr ''''), Some PNone, None}))
     \<and> (ouf = sample_only_undefined_field qs \<longrightarrow>
          returned (apply_filters E qs (Some \<lparr>conjunction = conn, items = [f]\<rparr>)) =
            Inr (qs\<lparr>qs_rows :=
                   filter (\<lambda>t. if py_truthy b
                                then field_value E qs t fn \<in> {Some (PStr ''''), Some PNone, None}
                                else field_value E qs t fn \<notin> {Some (PStr ''''), Some PNone, None})
                     (qs_rows qs)\<rparr>))"
    using item sem run by blast
qed

lemma text_field_name: "resolve_field_name example_env False text_empty_item = ''data__text''"
  by (simp add: resolve_field_name_def preprocess_field_name_def text_empty_item_def Let_def)

lemma text_field_values:
  "map (\<lambda>t. field_value example_env text_tasks_qs t ''data__text'') text_tasks =
     [Some (PStr ''''), Some PNone, None, Some (PStr ''hello'')]"
  by (simp add: text_tasks_def task_with_def field_value_def text_tasks_qs_def
      annotate_counters_def TaskQuerySet_def qs_annotate_def)

theorem string_empty_witness:
  "returned (apply_filters example_env text_tasks_qs
      (Some \<lparr>conjunction = OR, items = [text_empty_item]\<rparr>)) =
     Inr (text_tasks_qs\<lparr>qs_rows :=
            [task_with 1 [(''text'', PStr '''')] [], task_with 2 [(''text'', PNone)] [],
             task_with 3 [] []]\<rparr>)"
proof -
  have h: "\<not> skipped text_empty_item"
    "f_type text_empty_item = ''String'' \<or> f_type text_empty_item = ''Unknown''"
    "f_operator text_empty_item = ''empty''"
    "''data__text'' \<notin> set counters"
    "snd (split_lookup ''data__text'') = Exact"
    "cast_bool_from_str example_env (f_value text_empty_item) = Inr (PBool True)"
    "False = sample_only_undefined_field text_tasks_qs"
    by (simp_all add: skipped_def text_empty_item_def counters_def split_lookup_def endswith_def
        example_env_def spec_cast_bool_from_str_def ascii_lower_def
        sample_only_undefined_field_def qs_first_def qs_exists_def text_tasks_qs_def
        annotate_counters_def TaskQuerySet_def qs_annotate_def text_tasks_def task_with_def)
  have rows: "qs_rows text_tasks_qs = text_tasks"
    by (simp add: text_tasks_qs_def annotate_counters_def TaskQuerySet_def qs_annotate_def)
  show ?thesis
    using h text_field_values string_empty_predicate
      [where f = text_empty_item and fn = "''data__text''" and E = example_env and ouf = False
         and b = "PBool True" and conn = OR and qs = text_tasks_qs and fe = Q_empty]
    by (simp add: text_field_name rows) (simp add: text_tasks_def)
qed

text \<open>
  The claim as given fails on a counter: the filter of type String for the tasks whose
  \<^verbatim>\<open>total_annotations\<close> is empty returns the task whose counter is 0, a value that is
  neither the empty string nor null nor unset. It fails for a falsy value too: the empty
  string and the JSON value \<^verbatim>\<open>false\<close> coerce to false, the item is passed over, and
  all four tasks are returned, not the complement.
\<close>

theorem string_empty_counterexample:
  "f_type counter_string_item = ''String'' \<and> f_operator counter_string_item = ''empty''
   \<and> cast_bool_from_str example_env (f_value counter_string_item) = Inr (PBool True)
   \<and> returned (apply_filters example_env three_tasks_qs
        (Some \<lparr>conjunction = AND, items = [counter_string_item]\<rparr>)) =
       Inr (three_tasks_qs\<lparr>qs_rows := [task_with 1 [] [(''total_annotations'', PInt 0)]]\<rparr>)
   \<and> field_value example_env three_tasks_qs (task_with 1 [] [(''total_annotations'', PInt 0)])
        ''total_annotations'' = Some (PInt 0)
   \<and> cast_bool_from_str example_env (PStr '''') = Inr (PBool False)
   \<and> returned (apply_filters example_env text_tasks_qs
        (Some \<lparr>conjunction = AND, items = [text_empty_item\<lparr>f_value := PStr ''''\<rparr>]\<rparr>)) =
       Inr text_tasks_qs
   \<and> cast_bool_from_str example_env (PBool False) = Inr (PBool False)
   \<and> returned (apply_filters example_env text_tasks_qs
        (Some \<lparr>conjunction = AND, items = [text_empty_item\<lparr>f_value := PBool False\<rparr>]\<rparr>)) =
       Inr text_tasks_qs
   \<and> map t_id (qs_rows text_tasks_qs) = [1, 2, 3, 4]"
proof -
  have a: "returned (apply_filters example_env three_tasks_qs
        (Some \<lparr>conjunction = AND, items = [counter_string_item]\<rparr>)) =
       Inr (three_tasks_qs\<lparr>qs_rows := [task_with 1 [] [(''total_annotations'', PInt 0)]]\<rparr>)"
    by (simp add: apply_filters_result process_item_def skipped_def counter_string_item_def
        resolve_field_name_def preprocess_field_name_def clean_field_name_def
        annotate_number_cast_def needs_number_cast_def Let_def counter_special_case_def
        counters_def generic_predicate_def operators_get_def operators_def cast_value_def
        example_env_def spec_cast_bool_from_str_def ascii_lower_def
        Q_empty_def qs_filter_def annotate_counters_def TaskQuerySet_def qs_annotate_def
        three_tasks_qs_def three_tasks_def task_with_def field_value_def split_lookup_def
        endswith_def py_eq_def)
  have b: "returned (apply_filters example_env text_tasks_qs
        (Some \<lparr>conjunction = AND, items = [text_empty_item\<lparr>f_value := v\<rparr>]\<rparr>)) =
       Inr text_tasks_qs" if "\<not> py_truthy v" for v
    using that
    by (simp add: apply_filters_result process_item_def skipped_def text_empty_item_def
        qs_filter_Q_empty)
  have c: "map t_id (qs_rows text_tasks_qs) = [1, 2, 3, 4]"
    by (simp add: text_tasks_qs_def annotate_counters_def TaskQuerySet_def qs_annotate_def
        text_tasks_def task_with_def)
  show ?thesis
    using a b[of "PStr ''''"] b[of "PBool False"] c
    by (simp add: counter_string_item_def example_env_def spec_cast_bool_from_str_def
        ascii_lower_def field_value_def three_tasks_qs_def annotate_counters_def
        TaskQuerySet_def qs_annotate_def task_with_def)
qed

section \<open>Properties of the query assembly\<close>

subsection \<open>The selection\<close>

lemma py_eq_PInt: "py_eq (PInt a) (PInt b) = (a = b)"
  by (simp add: py_eq_def)

lemma list_ex_PInt: "list_ex (py_eq (PInt a)) (map PInt ids) = (a \<in> set ids)"
  by (induction ids) (auto simp: py_eq_PInt)

lemma id_in_holds:
  "q_holds E qs t (Q_kwarg ''id__in'' (PList (map PInt ids))) = (t_id t \<in> set ids)"
  by (simp add: split_lookup_def endswith_def strip_suffix_def field_value_def list_ex_PInt)

lemma apply_selection_rows:
  "qs_rows (apply_selection E so qs) =
     (case so of
        None \<Rightarrow> qs_rows qs
      | Some sel \<Rightarrow>
          if \<not> sel_all sel \<and> included sel \<noteq> []
          then filter (\<lambda>t. t_id t \<in> set (included sel)) (qs_rows qs)
          else if sel_all sel then filter (\<lambda>t. t_id t \<notin> set (excluded sel)) (qs_rows qs)
          else qs_rows qs)"
  by (auto simp: apply_selection_def qs_filter_def qs_exclude_def id_in_holds
      simp del: q_holds.simps split: option.splits)

lemma prepared_built:
  "built (prepared E self (Some pp)) =
     (case returned (apply_filters E (filter_project E self pp) (filters pp)) of
        Inl e \<Rightarrow> Inl e
      | Inr qs1 \<Rightarrow>
          (case apply_ordering E qs1 (ordering pp) of
             Inl e \<Rightarrow> Inl e
           | Inr qs2 \<Rightarrow> Inr (apply_selection E (selectedItems pp) qs2)))"
  by (simp add: prepared_def Let_def split: sum.splits)

lemma apply_selection_empty_list:
  "(sel_all sel = False \<and> included sel = []) \<or> (sel_all sel = True \<and> excluded sel = []) \<Longrightarrow>
     apply_selection E (Some sel) qs = qs"
  by (auto simp: apply_selection_def)

subsection \<open>C5: the selection comes last\<close>

text \<open>
  Claim C5, as amended. Let the filters and the ordering of the parameters give the
  query set \<open>qso\<close>. Then \<^verbatim>\<open>prepared\<close> returns a query set whose rows are rows of
  \<open>qso\<close>, in the order of \<open>qso\<close>: with \<^verbatim>\<open>all = false\<close> and a list of included ids that
  is not empty, the rows whose id is in the list (the filter's matches that are also
  included); with \<^verbatim>\<open>all = true\<close>, the rows whose id is not in the list of excluded ids;
  with no selection, all rows. The restriction is applied to the filtered and ordered
  query set, so it composes with both.

  The claim as given restricts the result to the included ids whenever \<^verbatim>\<open>all\<close> is
  false. With an empty list of included ids the code applies no restriction.
\<close>

theorem selection_restricts_filtered_ordered_rows:
  "returned (apply_filters E (filter_project E self pp) (filters pp)) = Inr qsf
   \<and> apply_ordering E qsf (ordering pp) = Inr qso
   \<longrightarrow>
     (\<exists>qsr. built (prepared E self (Some pp)) = Inr qsr
        \<and> qs_rows qsr =
            (case selectedItems pp of
               None \<Rightarrow> qs_rows qso
             | Some sel \<Rightarrow>
                 if \<not> sel_all sel \<and> included sel \<noteq> []
                 then filter (\<lambda>t. t_id t \<in> set (included sel)) (qs_rows qso)
                 else if sel_all sel then filter (\<lambda>t. t_id t \<notin> set (excluded sel)) (qs_rows qso)
                 else qs_rows qso))"
  by (simp add: prepared_built apply_selection_rows)

lemma order_three_tasks_by_id:
  "apply_ordering example_env three_tasks_qs [] = Inr (three_tasks_qs\<lparr>qs_ordered := True\<rparr>)"
  by (simp add: apply_ordering_def ordering_plan_def qs_order_by_def sort_by_def key_le_def
      field_value_def three_tasks_qs_def annotate_counters_def TaskQuerySet_def qs_annotate_def
      three_tasks_def task_with_def example_env_def example_less_def)

lemma three_tasks_rows: "qs_rows three_tasks_qs = three_tasks"
  by (simp add: three_tasks_qs_def annotate_counters_def TaskQuerySet_def qs_annotate_def)

theorem selection_witness:
  "(\<exists>qsr. built (prepared example_env three_tasks_qs
        (Some (select_only \<lparr>sel_all = False, included = [2, 3], excluded = []\<rparr>))) = Inr qsr
      \<and> map t_id (qs_rows qsr) = [2, 3])
   \<and> (\<exists>qsr. built (prepared example_env three_tasks_qs
        (Some (select_only \<lparr>sel_all = True, included = [], excluded = [2]\<rparr>))) = Inr qsr
      \<and> map t_id (qs_rows qsr) = [1, 3])"
proof -
  have f: "returned (apply_filters example_env (filter_project example_env three_tasks_qs
             (select_only sel)) (filters (select_only sel))) = Inr three_tasks_qs" for sel
    by (simp add: select_only_def filter_project_def apply_filters_def)
  have o: "apply_ordering example_env three_tasks_qs (ordering (select_only sel)) =
             Inr (three_tasks_qs\<lparr>qs_ordered := True\<rparr>)" for sel
    by (simp add: select_only_def order_three_tasks_by_id)
  show ?thesis
    using selection_restricts_filtered_ordered_rows
        [where E = example_env and self = three_tasks_qs and qsf = three_tasks_qs
           and qso = "three_tasks_qs\<lparr>qs_ordered := True\<rparr>"
           and pp = "select_only \<lparr>sel_all = False, included = [2, 3], excluded = []\<rparr>"]
      selection_restricts_filtered_ordered_rows
        [where E = example_env and self = three_tasks_qs and qsf = three_tasks_qs
           and qso = "three_tasks_qs\<lparr>qs_ordered := True\<rparr>"
           and pp = "select_only \<lparr>sel_all = True, included = [], excluded = [2]\<rparr>"]
      f o
    by (auto simp: three_tasks_rows three_tasks_def task_with_def select_only_def)
qed

text \<open>
  With \<^verbatim>\<open>all = false\<close> and no included id, the claim as given restricts the result to
  the ids of the empty list, that is to no row. The code returns the three tasks.
\<close>

theorem selection_empty_included_counterexample:
  "sel_all \<lparr>sel_all = False, included = [], excluded = []\<rparr> = False
   \<and> set (included \<lparr>sel_all = False, included = [], excluded = []\<rparr>) = {}
   \<and> built (prepared example_env three_tasks_qs
        (Some (select_only \<lparr>sel_all = False, included = [], excluded = []\<rparr>)))
      = Inr (three_tasks_qs\<lparr>qs_ordered := True\<rparr>)
   \<and> map t_id (qs_rows (three_tasks_qs\<lparr>qs_ordered := True\<rparr>)) = [1, 2, 3]"
  by (simp add: prepared_built select_only_def filter_project_def apply_filters_def
      order_three_tasks_by_id apply_selection_def three_tasks_rows three_tasks_def task_with_def)

subsection \<open>C10: an empty list of ids restricts nothing\<close>

text \<open>
  Claim C10. A selection with \<^verbatim>\<open>all = false\<close> and an empty list of included ids
  applies no restriction: \<^verbatim>\<open>prepared\<close> returns what it returns without a selection,
  the full filtered and ordered set. So does a selection with \<^verbatim>\<open>all = true\<close> and an
  empty list of excluded ids. On every query set the selection step is then the identity.
\<close>

theorem empty_id_list_restricts_nothing:
  "selectedItems pp = Some sel
   \<and> ((sel_all sel = False \<and> included sel = []) \<or> (sel_all sel = True \<and> excluded sel = []))
   \<longrightarrow>
     built (prepared E self (Some pp)) = built (prepared E self (Some (pp\<lparr>selectedItems := None\<rparr>)))
     \<and> apply_selection E (Some sel) qs = qs"
proof (intro impI, elim conjE)
  assume s: "selectedItems pp = Some sel"
    and e: "(sel_all sel = False \<and> included sel = []) \<or> (sel_all sel = True \<and> excluded sel = [])"
  have id: "apply_selection E (Some sel) q = q" for q
    using e by (rule apply_selection_empty_list)
  have none: "apply_selection E None q = q" for q
    by (simp add: apply_selection_def)
  have "built (prepared E self (Some pp)) =
        built (prepared E self (Some (pp\<lparr>selectedItems := None\<rparr>)))"
    by (simp add: prepared_built s id none filter_project_def split: sum.splits)
  then show "built (prepared E self (Some pp)) =
        built (prepared E self (Some (pp\<lparr>selectedItems := None\<rparr>)))
     \<and> apply_selection E (Some sel) qs = qs"
    using id by simp
qed

theorem empty_id_list_witness:
  "built (prepared example_env three_tasks_qs
      (Some (select_only \<lparr>sel_all = False, included = [], excluded = [2]\<rparr>)))
    = built (prepared example_env three_tasks_qs
      (Some ((select_only \<lparr>sel_all = False, included = [], excluded = [2]\<rparr>)
               \<lparr>selectedItems := None\<rparr>)))
   \<and> apply_selection example_env (Some \<lparr>sel_all = True, included = [1], excluded = []\<rparr>)
        three_tasks_qs = three_tasks_qs"
  using empty_id_list_restricts_nothing
      [where pp = "select_only \<lparr>sel_all = False, included = [], excluded = [2]\<rparr>"
         and sel = "\<lparr>sel_all = False, included = [], excluded = [2]\<rparr>"
         and E = example_env and self = three_tasks_qs and qs = three_tasks_qs]
    empty_id_list_restricts_nothing
      [where pp = "select_only \<lparr>sel_all = True, included = [1], excluded = []\<rparr>"
         and sel = "\<lparr>sel_all = True, included = [1], excluded = []\<rparr>"
         and E = example_env and self = three_tasks_qs and qs = three_tasks_qs]
  by (simp add: select_only_def)

section \<open>What a build writes into its parameters\<close>












subsection \<open>C7: the parameters after a build\<close>




section \<open>Value coercion on the generic path\<close>








subsection \<open>C8: coercion runs once, and its errors reach the caller\<close>




section \<open>Properties of the ordering applier\<close>

















subsection \<open>C6: one key, nulls last, and the default\<close>


section \<open>Properties of the computed columns\<close>










subsection \<open>C9: the fields handed to the registry\<close>



end
